theory Spec2Isabelle
  imports Main "HOL-Library.AList" "HOL-Library.Sublist"
begin

section \<open>The notebook as data\<close>

text \<open>
  The repository fragment is one notebook, \<^verbatim>\<open>examples/user_guide/17-Dashboards.ipynb\<close>,
  with eight code cells. Several properties of the notebook are properties of its text
  (which names a decorator lists, which names a body mentions, which modules are
  imported, where a name is bound), so the code cells are first written down as syntax
  trees, statement by statement, in the order of the file. Comments are dropped.

  A keyword argument \<^verbatim>\<open>k=e\<close> of a call is the element \<open>Keyword k e\<close> of the call's argument
  list, at its place among the arguments. Floating point literals are kept as their text.
\<close>

datatype expr =
    Name string
  | Str string
  | Num int
  | FloatLit string
  | BoolLit bool
  | Attribute expr string
  | Call expr "expr list"
  | Keyword string expr
  | ListE "expr list"
  | TupleE "expr list"
  | Subscript expr expr
  | Mult expr expr

text \<open>A formal parameter of a \<^verbatim>\<open>def\<close>: plain, with a default, or \<^verbatim>\<open>**kwargs\<close>.\<close>

datatype arg = Arg string | ArgDefault string expr | KwArgs string

text \<open>
  Statements. \<open>Import m a\<close> is \<^verbatim>\<open>import m as a\<close>; \<open>ImportFrom m ns\<close> is
  \<^verbatim>\<open>from m import n1, n2\<close>. \<open>FunctionDef name args decorators body\<close> and
  \<open>ClassDef name bases body\<close> follow Python's own tree. \<open>Global\<close>, \<open>Try\<close>, \<open>With\<close> and
  \<open>Raise\<close> are the statement forms whose absence from the notebook some properties are
  about; \<open>Try body handlers orelse finalbody\<close> keeps the handler bodies only.
\<close>

datatype stmt =
    Import string string
  | ImportFrom string "string list"
  | Assign expr expr
  | Expr expr
  | Return expr
  | If expr "stmt list" "stmt list"
  | FunctionDef string "arg list" "expr list" "stmt list"
  | ClassDef string "expr list" "stmt list"
  | Global "string list"
  | Try "stmt list" "stmt list" "stmt list" "stmt list"
  | With expr "stmt list"
  | Raise expr

named_theorems nb_defs \<open>the cells of the notebook and the definitions in them\<close>

subsection \<open>Cell 1: imports\<close>

definition cell1 :: "stmt list" where
  "cell1 =
    [Import ''pandas'' ''pd'',
     Import ''holoviews'' ''hv'',
     ImportFrom ''bokeh.sampledata'' [''stocks''],
     ImportFrom ''holoviews.operation.timeseries'' [''rolling'', ''rolling_outlier_std''],
     Expr (Call (Attribute (Name ''hv'') ''extension'') [Str ''bokeh''])]"

subsection \<open>Cell 2: the loader function and the first DynamicMap\<close>

definition load_symbol_body :: "stmt list" where
  "load_symbol_body =
    [Assign (Name ''df'')
       (Call (Attribute (Name ''pd'') ''DataFrame'')
          [Call (Name ''getattr'') [Name ''stocks'', Name ''symbol'']]),
     Assign (Subscript (Name ''df'') (Str ''date''))
       (Call (Attribute (Attribute (Name ''df'') ''date'') ''astype'') [Str ''datetime64[ns]'']),
     Return
       (Call
          (Attribute
             (Call (Attribute (Name ''hv'') ''Curve'')
                [Name ''df'', TupleE [Str ''date'', Str ''Date''], Name ''variable''])
             ''opts'')
          [Keyword ''framewise'' (BoolLit True)])]"

definition load_symbol_def :: stmt where
  "load_symbol_def =
    FunctionDef ''load_symbol''
      [Arg ''symbol'', ArgDefault ''variable'' (Str ''adj_close''), KwArgs ''kwargs'']
      []
      load_symbol_body"

definition stock_symbols_expr :: expr where
  "stock_symbols_expr = ListE [Str ''AAPL'', Str ''IBM'', Str ''FB'', Str ''GOOG'', Str ''MSFT'']"

definition cell2 :: "stmt list" where
  "cell2 =
    [load_symbol_def,
     Assign (Name ''stock_symbols'') stock_symbols_expr,
     Assign (Name ''dmap'')
       (Call
          (Attribute
             (Attribute
                (Call (Attribute (Name ''hv'') ''DynamicMap'')
                   [Name ''load_symbol'', Keyword ''kdims'' (Str ''Symbol'')])
                ''redim'')
             ''values'')
          [Keyword ''Symbol'' (Name ''stock_symbols'')]),
     Expr (Call (Attribute (Name ''dmap'') ''opts'') [Keyword ''framewise'' (BoolLit True)])]"

subsection \<open>Cell 3: the class StockExplorer\<close>

definition variables_expr :: expr where
  "variables_expr =
    ListE [Str ''open'', Str ''high'', Str ''low'', Str ''close'', Str ''volume'', Str ''adj_close'']"

definition StockExplorer_load_symbol_body :: "stmt list" where
  "StockExplorer_load_symbol_body =
    [Assign (Name ''df'')
       (Call (Attribute (Name ''pd'') ''DataFrame'')
          [Call (Name ''getattr'') [Name ''stocks'', Attribute (Name ''self'') ''symbol'']]),
     Assign (Subscript (Name ''df'') (Str ''date''))
       (Call (Attribute (Attribute (Name ''df'') ''date'') ''astype'') [Str ''datetime64[ns]'']),
     Return
       (Call
          (Attribute
             (Call (Attribute (Name ''hv'') ''Curve'')
                [Name ''df'', TupleE [Str ''date'', Str ''Date''],
                 Attribute (Name ''self'') ''variable''])
             ''opts'')
          [Keyword ''framewise'' (BoolLit True)])]"

definition StockExplorer_load_symbol_def :: stmt where
  "StockExplorer_load_symbol_def =
    FunctionDef ''load_symbol'' [Arg ''self'']
      [Call (Attribute (Name ''param'') ''depends'') [Str ''symbol'', Str ''variable'']]
      StockExplorer_load_symbol_body"

definition StockExplorer_def :: stmt where
  "StockExplorer_def =
    ClassDef ''StockExplorer'' [Attribute (Name ''param'') ''Parameterized'']
      [Assign (Name ''rolling_window'')
         (Call (Attribute (Name ''param'') ''Integer'')
            [Keyword ''default'' (Num 10), Keyword ''bounds'' (TupleE [Num 1, Num 365])]),
       Assign (Name ''symbol'')
         (Call (Attribute (Name ''param'') ''ObjectSelector'')
            [Keyword ''default'' (Str ''AAPL''), Keyword ''objects'' (Name ''stock_symbols'')]),
       Assign (Name ''variable'')
         (Call (Attribute (Name ''param'') ''ObjectSelector'')
            [Keyword ''default'' (Str ''adj_close''), Keyword ''objects'' (Name ''variables'')]),
       StockExplorer_load_symbol_def]"

definition cell3 :: "stmt list" where
  "cell3 =
    [Import ''param'' ''param'',
     Import ''panel'' ''pn'',
     Assign (Name ''variables'') variables_expr,
     StockExplorer_def]"

subsection \<open>Cell 4: the first dashboard\<close>

definition cell4 :: "stmt list" where
  "cell4 =
    [Assign (Name ''explorer'') (Call (Name ''StockExplorer'') []),
     Assign (Name ''stock_dmap'')
       (Call (Attribute (Name ''hv'') ''DynamicMap'') [Attribute (Name ''explorer'') ''load_symbol'']),
     Expr
       (Call (Attribute (Name ''pn'') ''Row'')
          [Call (Attribute (Name ''pn'') ''panel'')
             [Attribute (Name ''explorer'') ''param'',
              Keyword ''parameters'' (ListE [Str ''symbol'', Str ''variable''])],
           Name ''stock_dmap''])]"

subsection \<open>Cell 5: rolling mean and outliers\<close>

definition cell5 :: "stmt list" where
  "cell5 =
    [Assign (Name ''smoothed'')
       (Call (Name ''rolling'')
          [Name ''stock_dmap'',
           Keyword ''rolling_window''
             (Attribute (Attribute (Name ''explorer'') ''param'') ''rolling_window'')]),
     Assign (Name ''outliers'')
       (Call
          (Attribute
             (Call (Name ''rolling_outlier_std'')
                [Name ''stock_dmap'',
                 Keyword ''rolling_window''
                   (Attribute (Attribute (Name ''explorer'') ''param'') ''rolling_window'')])
             ''opts'')
          [Keyword ''color'' (Str ''red''), Keyword ''marker'' (Str ''triangle'')]),
     Expr
       (Call (Attribute (Name ''pn'') ''Row'')
          [Attribute (Name ''explorer'') ''param'',
           Call (Attribute (Mult (Name ''smoothed'') (Name ''outliers'')) ''opts'')
             [Keyword ''width'' (Num 600), Keyword ''padding'' (FloatLit ''0.1'')]])]"

subsection \<open>Cell 6: the function based dashboard\<close>

definition load_symbol_cb_body :: "stmt list" where
  "load_symbol_cb_body =
    [Return (Call (Name ''load_symbol'') [Name ''symbol'', Name ''variable''])]"

definition load_symbol_cb_def :: stmt where
  "load_symbol_cb_def =
    FunctionDef ''load_symbol_cb'' [Arg ''symbol'', Arg ''variable'']
      [Call (Attribute (Name ''pn'') ''depends'')
         [Keyword ''symbol'' (Attribute (Attribute (Name ''symbol'') ''param'') ''value''),
          Keyword ''variable'' (Attribute (Attribute (Name ''variable'') ''param'') ''value'')]]
      load_symbol_cb_body"

definition cell6 :: "stmt list" where
  "cell6 =
    [Assign (Name ''symbol'')
       (Call (Attribute (Attribute (Name ''pn'') ''widgets'') ''RadioButtonGroup'')
          [Keyword ''options'' (Name ''stock_symbols'')]),
     Assign (Name ''variable'')
       (Call (Attribute (Attribute (Name ''pn'') ''widgets'') ''Select'')
          [Keyword ''options'' (Name ''variables'')]),
     Assign (Name ''rolling_window'')
       (Call (Attribute (Attribute (Name ''pn'') ''widgets'') ''IntSlider'')
          [Keyword ''name'' (Str ''Rolling Window''), Keyword ''value'' (Num 10),
           Keyword ''start'' (Num 1), Keyword ''end'' (Num 365)]),
     load_symbol_cb_def,
     Assign (Name ''dmap'')
       (Call (Attribute (Name ''hv'') ''DynamicMap'') [Name ''load_symbol_cb'']),
     Assign (Name ''smoothed'')
       (Call (Name ''rolling'')
          [Name ''dmap'',
           Keyword ''rolling_window''
             (Attribute (Attribute (Name ''rolling_window'') ''param'') ''value'')]),
     Expr
       (Call (Attribute (Name ''pn'') ''Row'')
          [Call (Attribute (Name ''pn'') ''WidgetBox'')
             [Str ''## Stock Explorer'', Name ''symbol'', Name ''variable'', Name ''rolling_window''],
           Call (Attribute (Name ''smoothed'') ''opts'')
             [Keyword ''width'' (Num 500), Keyword ''framewise'' (BoolLit True)]])]"

subsection \<open>Cell 7: the class AdvancedStockExplorer\<close>

definition view_body :: "stmt list" where
  "view_body =
    [Assign (Name ''stocks'')
       (Call (Attribute (Name ''hv'') ''DynamicMap'') [Attribute (Name ''self'') ''load_symbol'']),
     Assign (Name ''smoothed'')
       (Call (Name ''rolling'')
          [Name ''stocks'',
           Keyword ''rolling_window''
             (Attribute (Attribute (Name ''self'') ''param'') ''rolling_window'')]),
     If (Attribute (Name ''self'') ''datashade'')
       [Assign (Name ''smoothed'')
          (Call
             (Attribute
                (Call (Name ''dynspread'')
                   [Call (Name ''datashade'')
                      [Name ''smoothed'', Keyword ''aggregator'' (Str ''any'')]])
                ''opts'')
             [Keyword ''framewise'' (BoolLit True)])]
       [],
     Assign (Name ''outliers'')
       (Call
          (Attribute
             (Call (Name ''rolling_outlier_std'')
                [Name ''stocks'',
                 Keyword ''rolling_window''
                   (Attribute (Attribute (Name ''self'') ''param'') ''rolling_window'')])
             ''opts'')
          [Keyword ''width'' (Num 600), Keyword ''color'' (Str ''red''),
           Keyword ''marker'' (Str ''triangle''), Keyword ''framewise'' (BoolLit True)]),
     Return (Mult (Name ''smoothed'') (Name ''outliers''))]"

definition view_def :: stmt where
  "view_def =
    FunctionDef ''view'' [Arg ''self'']
      [Call (Attribute (Name ''param'') ''depends'') [Str ''datashade'']]
      view_body"

definition AdvancedStockExplorer_def :: stmt where
  "AdvancedStockExplorer_def =
    ClassDef ''AdvancedStockExplorer'' [Name ''StockExplorer'']
      [Assign (Name ''datashade'')
         (Call (Attribute (Name ''param'') ''Boolean'') [Keyword ''default'' (BoolLit False)]),
       view_def]"

definition cell7 :: "stmt list" where
  "cell7 =
    [ImportFrom ''holoviews.operation.datashader'' [''datashade'', ''dynspread''],
     AdvancedStockExplorer_def]"

subsection \<open>Cell 8: the redrawing dashboard\<close>

definition cell8 :: "stmt list" where
  "cell8 =
    [Assign (Name ''explorer'') (Call (Name ''AdvancedStockExplorer'') []),
     Expr
       (Call (Attribute (Name ''pn'') ''Row'')
          [Attribute (Name ''explorer'') ''param'', Attribute (Name ''explorer'') ''view''])]"

definition notebook :: "stmt list" where
  "notebook = cell1 @ cell2 @ cell3 @ cell4 @ cell5 @ cell6 @ cell7 @ cell8"

lemmas [nb_defs] =
  notebook_def cell1_def cell2_def cell3_def cell4_def cell5_def cell6_def cell7_def cell8_def
  load_symbol_def_def load_symbol_body_def stock_symbols_expr_def variables_expr_def
  StockExplorer_def_def StockExplorer_load_symbol_def_def StockExplorer_load_symbol_body_def
  load_symbol_cb_def_def load_symbol_cb_body_def
  AdvancedStockExplorer_def_def view_def_def view_body_def

section \<open>Reading the syntax\<close>

subsection \<open>Expressions of a statement\<close>

text \<open>Every subexpression of an expression, itself first.\<close>

fun subexprs :: "expr \<Rightarrow> expr list" where
  "subexprs (Attribute e a) = Attribute e a # subexprs e"
| "subexprs (Call f as) = Call f as # subexprs f @ concat (map subexprs as)"
| "subexprs (Keyword k e) = Keyword k e # subexprs e"
| "subexprs (ListE es) = ListE es # concat (map subexprs es)"
| "subexprs (TupleE es) = TupleE es # concat (map subexprs es)"
| "subexprs (Subscript e i) = Subscript e i # subexprs e @ subexprs i"
| "subexprs (Mult a b) = Mult a b # subexprs a @ subexprs b"
| "subexprs e = [e]"

fun arg_name :: "arg \<Rightarrow> string" where
  "arg_name (Arg n) = n"
| "arg_name (ArgDefault n d) = n"
| "arg_name (KwArgs n) = n"

fun arg_default :: "arg \<Rightarrow> expr list" where
  "arg_default (ArgDefault n d) = [d]"
| "arg_default a = []"

text \<open>
  The expressions written in a statement, those of nested statements (the bodies of
  \<^verbatim>\<open>if\<close>, \<^verbatim>\<open>def\<close> and \<^verbatim>\<open>class\<close>) included.
\<close>

fun stmt_exprs :: "stmt \<Rightarrow> expr list" where
  "stmt_exprs (Import m a) = []"
| "stmt_exprs (ImportFrom m ns) = []"
| "stmt_exprs (Assign t v) = [t, v]"
| "stmt_exprs (Expr e) = [e]"
| "stmt_exprs (Return e) = [e]"
| "stmt_exprs (If c a b) = c # concat (map stmt_exprs a) @ concat (map stmt_exprs b)"
| "stmt_exprs (FunctionDef n as ds body) =
     ds @ concat (map arg_default as) @ concat (map stmt_exprs body)"
| "stmt_exprs (ClassDef n bs body) = bs @ concat (map stmt_exprs body)"
| "stmt_exprs (Global ns) = []"
| "stmt_exprs (Try b h e f) =
     concat (map stmt_exprs b) @ concat (map stmt_exprs h) @
     concat (map stmt_exprs e) @ concat (map stmt_exprs f)"
| "stmt_exprs (With e b) = e # concat (map stmt_exprs b)"
| "stmt_exprs (Raise e) = [e]"

definition all_exprs :: "stmt list \<Rightarrow> expr list" where
  "all_exprs ss = concat (map subexprs (concat (map stmt_exprs ss)))"

subsection \<open>Parameters of a class\<close>

text \<open>
  A class attribute assigned a call of \<^verbatim>\<open>param.<Type>\<close> declares the parameter of that
  name. A class inherits the parameters of those of its bases that the notebook defined
  before it; the classes are collected in the order of the file.
\<close>

fun param_decl_name :: "stmt \<Rightarrow> string option" where
  "param_decl_name (Assign (Name x) (Call (Attribute (Name m) t) as)) =
     (if m = ''param'' then Some x else None)"
| "param_decl_name s = None"

fun base_params :: "(string \<times> string list) list \<Rightarrow> expr \<Rightarrow> string list" where
  "base_params tab (Name b) = (case map_of tab b of Some ps \<Rightarrow> ps | None \<Rightarrow> [])"
| "base_params tab e = []"

fun class_table :: "stmt list \<Rightarrow> (string \<times> string list) list \<Rightarrow> (string \<times> string list) list" where
  "class_table [] tab = tab"
| "class_table (ClassDef c bs body # ss) tab =
     class_table ss
       (tab @ [(c, concat (map (base_params tab) bs) @ List.map_filter param_decl_name body)])"
| "class_table (s # ss) tab = class_table ss tab"

definition class_params :: "(string \<times> string list) list \<Rightarrow> string \<Rightarrow> string list" where
  "class_params tab c = (case map_of tab c of Some ps \<Rightarrow> ps | None \<Rightarrow> [])"

subsection \<open>Declared and read dependencies\<close>

text \<open>
  The names a decorator \<^verbatim>\<open>m.depends(...)\<close> declares: a positional string names a parameter
  of the instance (\<^verbatim>\<open>@param.depends('symbol', 'variable')\<close>), a keyword names the argument that
  receives the value (\<^verbatim>\<open>@pn.depends(symbol=..., variable=...)\<close>).
\<close>

fun dep_name :: "expr \<Rightarrow> string option" where
  "dep_name (Str s) = Some s"
| "dep_name (Keyword k e) = Some k"
| "dep_name e = None"

fun depends_names :: "expr \<Rightarrow> string list" where
  "depends_names (Call (Attribute (Name m) d) as) =
     (if d = ''depends'' then List.map_filter dep_name as else [])"
| "depends_names e = []"

text \<open>
  What a body reads. In a method, reading a parameter is loading the attribute of that
  name from \<^verbatim>\<open>self\<close>; \<^verbatim>\<open>self.param.x\<close> is not a read of \<^verbatim>\<open>x\<close>: it names the parameter object,
  and is listed apart. In a plain function, the parameters are its arguments, read by name.
\<close>

fun self_load :: "expr \<Rightarrow> string option" where
  "self_load (Attribute (Name n) a) = (if n = ''self'' then Some a else None)"
| "self_load e = None"

fun self_param_ref :: "expr \<Rightarrow> string option" where
  "self_param_ref (Attribute (Attribute (Name n) p) a) =
     (if n = ''self'' \<and> p = ''param'' then Some a else None)"
| "self_param_ref e = None"

fun name_load :: "expr \<Rightarrow> string option" where
  "name_load (Name n) = Some n"
| "name_load e = None"

definition method_reads :: "string list \<Rightarrow> stmt list \<Rightarrow> string list" where
  "method_reads params body =
     remdups (filter (\<lambda>a. a \<in> set params) (List.map_filter self_load (all_exprs body)))"

definition method_param_refs :: "stmt list \<Rightarrow> string list" where
  "method_param_refs body = remdups (List.map_filter self_param_ref (all_exprs body))"

definition function_reads :: "arg list \<Rightarrow> stmt list \<Rightarrow> string list" where
  "function_reads as body =
     remdups (filter (\<lambda>a. a \<in> set (map arg_name as)) (List.map_filter name_load (all_exprs body)))"

text \<open>
  One row of the dependency registry: the computation's name, the class that owns it
  (none for a plain function), the names its decorator declares and the names its body
  reads. Only decorated definitions are computations.
\<close>

record dependency =
  computation :: string
  owner :: "string option"
  declared :: "string list"
  reads :: "string list"

fun method_dependency :: "string \<Rightarrow> string list \<Rightarrow> stmt \<Rightarrow> dependency list" where
  "method_dependency c params (FunctionDef f as ds body) =
     (if ds = [] then []
      else [\<lparr>computation = f, owner = Some c,
             declared = concat (map depends_names ds),
             reads = method_reads params body\<rparr>])"
| "method_dependency c params s = []"

fun stmt_dependencies :: "(string \<times> string list) list \<Rightarrow> stmt \<Rightarrow> dependency list" where
  "stmt_dependencies tab (FunctionDef f as ds body) =
     (if ds = [] then []
      else [\<lparr>computation = f, owner = None,
             declared = concat (map depends_names ds),
             reads = function_reads as body\<rparr>])"
| "stmt_dependencies tab (ClassDef c bs body) =
     concat (map (method_dependency c (class_params tab c)) body)"
| "stmt_dependencies tab s = []"

definition dependency_registry :: "stmt list \<Rightarrow> dependency list" where
  "dependency_registry nb = concat (map (stmt_dependencies (class_table nb [])) nb)"

definition consistent :: "dependency \<Rightarrow> bool" where
  "consistent d = (set (declared d) = set (reads d))"

section \<open>Properties of the syntax\<close>

lemma class_table_notebook:
  "class_table notebook [] =
     [(''StockExplorer'', [''rolling_window'', ''symbol'', ''variable'']),
      (''AdvancedStockExplorer'', [''rolling_window'', ''symbol'', ''variable'', ''datashade''])]"
  by (simp add: nb_defs)

lemma class_params_StockExplorer:
  "class_params (class_table notebook []) ''StockExplorer'' =
     [''rolling_window'', ''symbol'', ''variable'']"
  by (simp add: class_params_def class_table_notebook)

lemma class_params_AdvancedStockExplorer:
  "class_params (class_table notebook []) ''AdvancedStockExplorer'' =
     [''rolling_window'', ''symbol'', ''variable'', ''datashade'']"
  by (simp add: class_params_def class_table_notebook)

lemma reads_StockExplorer_load_symbol:
  "method_reads [''rolling_window'', ''symbol'', ''variable''] StockExplorer_load_symbol_body =
     [''symbol'', ''variable'']"
  by (simp add: method_reads_def all_exprs_def StockExplorer_load_symbol_body_def)

lemma reads_view:
  "method_reads [''rolling_window'', ''symbol'', ''variable'', ''datashade''] view_body =
     [''datashade'']"
  by (simp add: method_reads_def all_exprs_def view_body_def)

lemma reads_load_symbol_cb:
  "function_reads [Arg ''symbol'', Arg ''variable''] load_symbol_cb_body =
     [''symbol'', ''variable'']"
  by (simp add: function_reads_def all_exprs_def load_symbol_cb_body_def)

lemma dependency_registry_notebook:
  "dependency_registry notebook =
     [\<lparr>computation = ''load_symbol'', owner = Some ''StockExplorer'',
        declared = [''symbol'', ''variable''], reads = [''symbol'', ''variable'']\<rparr>,
      \<lparr>computation = ''load_symbol_cb'', owner = None,
        declared = [''symbol'', ''variable''], reads = [''symbol'', ''variable'']\<rparr>,
      \<lparr>computation = ''view'', owner = Some ''AdvancedStockExplorer'',
        declared = [''datashade''], reads = [''datashade'']\<rparr>]"
proof -
  let ?tab = "class_table notebook []"
  have 1: "stmt_dependencies ?tab StockExplorer_def =
      [\<lparr>computation = ''load_symbol'', owner = Some ''StockExplorer'',
        declared = [''symbol'', ''variable''], reads = [''symbol'', ''variable'']\<rparr>]"
    by (simp add: StockExplorer_def_def StockExplorer_load_symbol_def_def
        class_params_StockExplorer reads_StockExplorer_load_symbol)
  have 2: "stmt_dependencies ?tab load_symbol_cb_def =
      [\<lparr>computation = ''load_symbol_cb'', owner = None,
        declared = [''symbol'', ''variable''], reads = [''symbol'', ''variable'']\<rparr>]"
    by (simp add: load_symbol_cb_def_def reads_load_symbol_cb)
  have 3: "stmt_dependencies ?tab AdvancedStockExplorer_def =
      [\<lparr>computation = ''view'', owner = Some ''AdvancedStockExplorer'',
        declared = [''datashade''], reads = [''datashade'']\<rparr>]"
    by (simp add: AdvancedStockExplorer_def_def view_def_def
        class_params_AdvancedStockExplorer reads_view)
  have 4: "stmt_dependencies ?tab load_symbol_def = []"
    by (simp add: load_symbol_def_def)
  have "concat (map (stmt_dependencies ?tab)
          (cell1 @ cell2 @ cell3 @ cell4 @ cell5 @ cell6 @ cell7 @ cell8)) =
     [\<lparr>computation = ''load_symbol'', owner = Some ''StockExplorer'',
        declared = [''symbol'', ''variable''], reads = [''symbol'', ''variable'']\<rparr>,
      \<lparr>computation = ''load_symbol_cb'', owner = None,
        declared = [''symbol'', ''variable''], reads = [''symbol'', ''variable'']\<rparr>,
      \<lparr>computation = ''view'', owner = Some ''AdvancedStockExplorer'',
        declared = [''datashade''], reads = [''datashade'']\<rparr>]"
    by (simp add: cell1_def cell2_def cell3_def cell4_def cell5_def cell6_def
        cell7_def cell8_def 1 2 3 4)
  then show ?thesis
    unfolding dependency_registry_def by (subst (2) notebook_def)
qed

lemma view_param_refs: "method_param_refs view_body = [''rolling_window'']"
  by (simp add: method_param_refs_def all_exprs_def view_body_def)

text \<open>
  Claim C1. Every computation of the notebook that carries a dependency decorator
  declares exactly the parameter names its body reads. There are three of them:
  \<^verbatim>\<open>StockExplorer.load_symbol\<close> declares and reads \<^verbatim>\<open>symbol\<close> and \<^verbatim>\<open>variable\<close>;
  \<^verbatim>\<open>load_symbol_cb\<close> declares and reads \<^verbatim>\<open>symbol\<close> and \<^verbatim>\<open>variable\<close>;
  \<^verbatim>\<open>AdvancedStockExplorer.view\<close> declares \<^verbatim>\<open>datashade\<close> and reads \<^verbatim>\<open>datashade\<close> only, so it
  reads no parameter outside its declared set. (The body of \<^verbatim>\<open>view\<close> also names the
  parameter object \<^verbatim>\<open>self.param.rolling_window\<close>, which it hands to the operations without
  reading its value: see \<open>view_param_refs\<close>.)
\<close>

theorem C1_declared_equals_read:
  "map (\<lambda>d. (computation d, owner d)) (dependency_registry notebook) =
     [(''load_symbol'', Some ''StockExplorer''), (''load_symbol_cb'', None),
      (''view'', Some ''AdvancedStockExplorer'')]
   \<and> list_all consistent (dependency_registry notebook)
   \<and> set (reads (dependency_registry notebook ! 2)) - set (declared (dependency_registry notebook ! 2)) = {}
   \<and> declared (dependency_registry notebook ! 2) = [''datashade'']"
  by (simp add: dependency_registry_notebook consistent_def)

section \<open>Running the function bodies\<close>

subsection \<open>Values, exceptions and the heap\<close>

text \<open>
  Python values as the notebook's functions see them. Objects of the libraries live in a
  heap and are handled by reference (\<open>VRef\<close>); \<open>VFun\<close> is a callable known by its qualified
  name and \<open>VMethod ob m\<close> the attribute \<open>m\<close> of \<open>ob\<close> not yet called. \<open>VInst\<close> is an
  instance of one of the notebook's classes, given by the current values of its parameters.
\<close>

type_synonym addr = nat

datatype val =
    VNone
  | VBool bool
  | VInt int
  | VFloat string
  | VStr string
  | VList "val list"
  | VTuple "val list"
  | VDict "(string \<times> val) list"
  | VRef addr
  | VFun string
  | VMethod val string
  | VInst "(string \<times> val) list"

text \<open>
  A raised exception is its class name and its argument. \<open>NotModelled\<close> is not a Python
  exception: it marks a syntactic form that no function body of the notebook contains and
  that is given no meaning here.
\<close>

datatype exn = Raised string string | NotModelled

text \<open>
  A computation takes the heap (a list of objects, addressed by position) and either raises
  or returns a value and the new heap.
\<close>

type_synonym ('o, 'a) py = "'o list \<Rightarrow> exn + 'a \<times> 'o list"

definition return :: "'a \<Rightarrow> ('o, 'a) py" where
  "return x h = Inr (x, h)"

definition raise :: "exn \<Rightarrow> ('o, 'a) py" where
  "raise e h = Inl e"

definition bind :: "('o, 'a) py \<Rightarrow> ('a \<Rightarrow> ('o, 'b) py) \<Rightarrow> ('o, 'b) py" where
  "bind m f h = (case m h of Inl e \<Rightarrow> Inl e | Inr (x, h') \<Rightarrow> f x h')"

lemma bind_cong [fundef_cong]:
  "m h = m' h' \<Longrightarrow> (\<And>x k. m' h' = Inr (x, k) \<Longrightarrow> f x k = f' x k) \<Longrightarrow> bind m f h = bind m' f' h'"
  by (auto simp: bind_def split: sum.splits)

lemma bind_return [simp]: "bind (return x) f h = f x h"
  by (simp add: bind_def return_def)

lemma bind_raise [simp]: "bind (raise e) f h = Inl e"
  by (simp add: bind_def raise_def)

lemma bind_return_fun: "bind (return x) f = f x"
  by (rule ext) simp

lemma bind_assoc: "bind (bind m f) k h = bind m (\<lambda>x. bind (f x) k) h"
  by (simp add: bind_def split: sum.splits)

lemma bind_Inr:
  assumes "bind m f h = Inr (r, h')"
  obtains x k where "m h = Inr (x, k)" and "f x k = Inr (r, h')"
  using assms by (auto simp: bind_def split: sum.splits)

lemma bind_Inl:
  assumes "bind m f h = Inl e"
  obtains "m h = Inl e" | x k where "m h = Inr (x, k)" and "f x k = Inl e"
  using assms by (auto simp: bind_def split: sum.splits)

subsection \<open>The libraries as a parameter\<close>

text \<open>
  The notebook implements no operation on objects itself: loading an attribute, calling,
  assigning an item, multiplying and testing truth are all done by the objects' libraries
  (pandas, HoloViews, Panel, param, and Python's builtins). They are a parameter of the
  model: a record of the five operations, each free to raise, to allocate and to mutate.
\<close>

record 'o lib =
  load_attr :: "val \<Rightarrow> string \<Rightarrow> ('o, val) py"
  call :: "val \<Rightarrow> val list \<Rightarrow> (string \<times> val) list \<Rightarrow> ('o, val) py"
  store_item :: "val \<Rightarrow> val \<Rightarrow> val \<Rightarrow> ('o, unit) py"
  multiply :: "val \<Rightarrow> val \<Rightarrow> ('o, val) py"
  truth :: "val \<Rightarrow> ('o, bool) py"

text \<open>
  Names. A global name is looked up in the module's globals, then in the builtins (of which
  the notebook uses \<^verbatim>\<open>getattr\<close> only); a local name that has no value yet raises.
\<close>

definition builtins :: "string \<rightharpoonup> val" where
  "builtins = [''getattr'' \<mapsto> VFun ''getattr'']"

definition global_name :: "(string \<rightharpoonup> val) \<Rightarrow> string \<Rightarrow> ('o, val) py" where
  "global_name g n =
     (case g n of
        Some v \<Rightarrow> return v
      | None \<Rightarrow> (case builtins n of Some v \<Rightarrow> return v | None \<Rightarrow> raise (Raised ''NameError'' n)))"

definition local_name :: "(string \<rightharpoonup> val) \<Rightarrow> string \<Rightarrow> ('o, val) py" where
  "local_name l n =
     (case l n of Some v \<Rightarrow> return v | None \<Rightarrow> raise (Raised ''UnboundLocalError'' n))"

text \<open>
  Attribute access \<^verbatim>\<open>v.a\<close>: a parameter of an instance is read from the instance, every
  other attribute is the library's.
\<close>

definition attr :: "'o lib \<Rightarrow> val \<Rightarrow> string \<Rightarrow> ('o, val) py" where
  "attr L v a =
     (case v of
        VInst ps \<Rightarrow> (case map_of ps a of Some x \<Rightarrow> return x | None \<Rightarrow> load_attr L v a)
      | _ \<Rightarrow> load_attr L v a)"

subsection \<open>Expressions\<close>

text \<open>
  Evaluation in a function body, left to right as Python does: \<open>sc\<close> lists the names that
  are local to the body, \<open>g\<close> holds the module's globals and \<open>l\<close> the locals. The arguments
  of a call are split into the positional ones and the keywords. Subscript loads do not
  occur in the notebook.
\<close>

fun eval :: "'o lib \<Rightarrow> string list \<Rightarrow> (string \<rightharpoonup> val) \<Rightarrow> (string \<rightharpoonup> val) \<Rightarrow> expr \<Rightarrow> ('o, val) py"
and eval_list :: "'o lib \<Rightarrow> string list \<Rightarrow> (string \<rightharpoonup> val) \<Rightarrow> (string \<rightharpoonup> val) \<Rightarrow> expr list
    \<Rightarrow> ('o, val list) py"
and eval_args :: "'o lib \<Rightarrow> string list \<Rightarrow> (string \<rightharpoonup> val) \<Rightarrow> (string \<rightharpoonup> val) \<Rightarrow> expr list
    \<Rightarrow> ('o, val list \<times> (string \<times> val) list) py"
where
  "eval L sc g l (Name n) h = (if n \<in> set sc then local_name l n h else global_name g n h)"
| "eval L sc g l (Str s) h = return (VStr s) h"
| "eval L sc g l (Num i) h = return (VInt i) h"
| "eval L sc g l (FloatLit s) h = return (VFloat s) h"
| "eval L sc g l (BoolLit b) h = return (VBool b) h"
| "eval L sc g l (Attribute e a) h = bind (eval L sc g l e) (\<lambda>v. attr L v a) h"
| "eval L sc g l (Call f as) h =
     bind (eval L sc g l f) (\<lambda>fv.
     bind (eval_args L sc g l as) (\<lambda>(ps, ks). call L fv ps ks)) h"
| "eval L sc g l (Keyword k e) h = raise NotModelled h"
| "eval L sc g l (ListE es) h = bind (eval_list L sc g l es) (\<lambda>vs. return (VList vs)) h"
| "eval L sc g l (TupleE es) h = bind (eval_list L sc g l es) (\<lambda>vs. return (VTuple vs)) h"
| "eval L sc g l (Subscript e i) h = raise NotModelled h"
| "eval L sc g l (Mult a b) h =
     bind (eval L sc g l a) (\<lambda>x. bind (eval L sc g l b) (\<lambda>y. multiply L x y)) h"
| "eval_list L sc g l [] h = return [] h"
| "eval_list L sc g l (e # es) h =
     bind (eval L sc g l e) (\<lambda>v. bind (eval_list L sc g l es) (\<lambda>vs. return (v # vs))) h"
| "eval_args L sc g l [] h = return ([], []) h"
| "eval_args L sc g l (Keyword k e # as) h =
     bind (eval L sc g l e) (\<lambda>v.
     bind (eval_args L sc g l as) (\<lambda>(ps, ks). return (ps, (k, v) # ks))) h"
| "eval_args L sc g l (e # as) h =
     bind (eval L sc g l e) (\<lambda>v.
     bind (eval_args L sc g l as) (\<lambda>(ps, ks). return (v # ps, ks))) h"

subsection \<open>Where a name is bound\<close>

text \<open>
  Python fixes the scope of a name when it compiles the function: a name that the body
  binds (by assignment, import, \<^verbatim>\<open>def\<close> or \<^verbatim>\<open>class\<close>) is local to the function, unless a
  \<^verbatim>\<open>global\<close> statement of the body names it; the arguments are local.
\<close>

fun assigned :: "stmt \<Rightarrow> string list" where
  "assigned (Assign (Name x) e) = [x]"
| "assigned (Import m a) = [a]"
| "assigned (ImportFrom m ns) = ns"
| "assigned (FunctionDef f as ds body) = [f]"
| "assigned (ClassDef c bs body) = [c]"
| "assigned (If c a b) = concat (map assigned a) @ concat (map assigned b)"
| "assigned (Try b h e f) =
     concat (map assigned b) @ concat (map assigned h) @
     concat (map assigned e) @ concat (map assigned f)"
| "assigned (With e b) = concat (map assigned b)"
| "assigned s = []"

fun global_decls :: "stmt \<Rightarrow> string list" where
  "global_decls (Global ns) = ns"
| "global_decls (If c a b) = concat (map global_decls a) @ concat (map global_decls b)"
| "global_decls (Try b h e f) =
     concat (map global_decls b) @ concat (map global_decls h) @
     concat (map global_decls e) @ concat (map global_decls f)"
| "global_decls (With e b) = concat (map global_decls b)"
| "global_decls s = []"

definition local_names :: "arg list \<Rightarrow> stmt list \<Rightarrow> string list" where
  "local_names as body =
     filter (\<lambda>n. n \<notin> set (concat (map global_decls body)))
       (map arg_name as @ concat (map assigned body))"

subsection \<open>Statements\<close>

text \<open>
  A statement of a function body runs on the pair of the globals and the locals and gives
  them back with its outcome. An assignment to a name writes the locals when the name is
  local and the globals otherwise; an item assignment evaluates its right-hand side first,
  then the object and the key. The statement forms a body of the notebook never uses
  (nested definitions, imports, \<^verbatim>\<open>try\<close>, \<^verbatim>\<open>with\<close>, \<^verbatim>\<open>raise\<close>) are not modelled.
\<close>

datatype outcome = Normal | Returned val

fun exec :: "'o lib \<Rightarrow> string list \<Rightarrow> stmt \<Rightarrow> (string \<rightharpoonup> val) \<times> (string \<rightharpoonup> val)
    \<Rightarrow> ('o, outcome \<times> (string \<rightharpoonup> val) \<times> (string \<rightharpoonup> val)) py"
and exec_block :: "'o lib \<Rightarrow> string list \<Rightarrow> stmt list \<Rightarrow> (string \<rightharpoonup> val) \<times> (string \<rightharpoonup> val)
    \<Rightarrow> ('o, outcome \<times> (string \<rightharpoonup> val) \<times> (string \<rightharpoonup> val)) py"
where
  "exec L sc (Assign (Name x) e) (g, l) h =
     bind (eval L sc g l e) (\<lambda>v.
       return (Normal, if x \<in> set sc then (g, l(x \<mapsto> v)) else (g(x \<mapsto> v), l))) h"
| "exec L sc (Assign (Subscript ob k) e) (g, l) h =
     bind (eval L sc g l e) (\<lambda>v.
     bind (eval L sc g l ob) (\<lambda>ov.
     bind (eval L sc g l k) (\<lambda>kv.
     bind (store_item L ov kv v) (\<lambda>u. return (Normal, g, l))))) h"
| "exec L sc (Expr e) (g, l) h = bind (eval L sc g l e) (\<lambda>v. return (Normal, g, l)) h"
| "exec L sc (Return e) (g, l) h = bind (eval L sc g l e) (\<lambda>v. return (Returned v, g, l)) h"
| "exec L sc (If c a b) (g, l) h =
     bind (eval L sc g l c) (\<lambda>cv.
     bind (truth L cv) (\<lambda>t. exec_block L sc (if t then a else b) (g, l))) h"
| "exec L sc (Global ns) (g, l) h = return (Normal, g, l) h"
| "exec L sc s (g, l) h = raise NotModelled h"
| "exec_block L sc [] (g, l) h = return (Normal, g, l) h"
| "exec_block L sc (s # ss) (g, l) h =
     bind (exec L sc s (g, l)) (\<lambda>(out, g', l').
       case out of
         Normal \<Rightarrow> exec_block L sc ss (g', l')
       | Returned v \<Rightarrow> return (Returned v, g', l')) h"

text \<open>A body that binds only local names leaves the globals as they were.\<close>

lemma exec_globals:
  "exec L sc s gl h = Inr ((out, g', l'), h') \<Longrightarrow> set (assigned s) \<subseteq> set sc \<Longrightarrow> g' = fst gl"
  "exec_block L sc ss gl h = Inr ((out, g', l'), h') \<Longrightarrow>
     set (concat (map assigned ss)) \<subseteq> set sc \<Longrightarrow> g' = fst gl"
  by (induction L sc s gl h and L sc ss gl h arbitrary: out g' l' h' and out g' l' h'
      rule: exec_exec_block.induct)
    (auto simp: bind_def return_def raise_def split: sum.splits if_splits outcome.splits)

section \<open>The functions of the notebook\<close>

subsection \<open>The loader, three times\<close>

text \<open>
  \<^verbatim>\<open>load_symbol(symbol, variable='adj_close', **kwargs)\<close> of cell 2, statement by statement:
  \<^verbatim>\<open>
  df = pd.DataFrame(getattr(stocks, symbol))
  df['date'] = df.date.astype('datetime64[ns]')
  return hv.Curve(df, ('date', 'Date'), variable).opts(framewise=True)
  \<close>
  The names \<^verbatim>\<open>pd\<close>, \<^verbatim>\<open>getattr\<close>, \<^verbatim>\<open>stocks\<close> and \<^verbatim>\<open>hv\<close> are global; every operation on an
  object is the library's.
\<close>

definition load_symbol :: "'o lib \<Rightarrow> (string \<rightharpoonup> val) \<Rightarrow> val \<Rightarrow> val \<Rightarrow> ('o, val) py" where
  "load_symbol L g symbol variable =
     bind (global_name g ''pd'') (\<lambda>pd.
     bind (attr L pd ''DataFrame'') (\<lambda>DataFrame.
     bind (global_name g ''getattr'') (\<lambda>getattr.
     bind (global_name g ''stocks'') (\<lambda>stocks.
     bind (call L getattr [stocks, symbol] []) (\<lambda>data.
     bind (call L DataFrame [data] []) (\<lambda>df.
     bind (attr L df ''date'') (\<lambda>date.
     bind (attr L date ''astype'') (\<lambda>astype.
     bind (call L astype [VStr ''datetime64[ns]''] []) (\<lambda>converted.
     bind (store_item L df (VStr ''date'') converted) (\<lambda>u.
     bind (global_name g ''hv'') (\<lambda>hv.
     bind (attr L hv ''Curve'') (\<lambda>Curve.
     bind (call L Curve [df, VTuple [VStr ''date'', VStr ''Date''], variable] []) (\<lambda>curve.
     bind (attr L curve ''opts'') (\<lambda>opts.
     call L opts [] [(''framewise'', VBool True)]))))))))))))))"

text \<open>
  The method \<^verbatim>\<open>StockExplorer.load_symbol(self)\<close> of cell 3 has the same body with
  \<^verbatim>\<open>self.symbol\<close> and \<^verbatim>\<open>self.variable\<close> in the places of the two arguments.
\<close>

definition StockExplorer_load_symbol :: "'o lib \<Rightarrow> (string \<rightharpoonup> val) \<Rightarrow> val \<Rightarrow> ('o, val) py" where
  "StockExplorer_load_symbol L g self =
     bind (global_name g ''pd'') (\<lambda>pd.
     bind (attr L pd ''DataFrame'') (\<lambda>DataFrame.
     bind (global_name g ''getattr'') (\<lambda>getattr.
     bind (global_name g ''stocks'') (\<lambda>stocks.
     bind (attr L self ''symbol'') (\<lambda>symbol.
     bind (call L getattr [stocks, symbol] []) (\<lambda>data.
     bind (call L DataFrame [data] []) (\<lambda>df.
     bind (attr L df ''date'') (\<lambda>date.
     bind (attr L date ''astype'') (\<lambda>astype.
     bind (call L astype [VStr ''datetime64[ns]''] []) (\<lambda>converted.
     bind (store_item L df (VStr ''date'') converted) (\<lambda>u.
     bind (global_name g ''hv'') (\<lambda>hv.
     bind (attr L hv ''Curve'') (\<lambda>Curve.
     bind (attr L self ''variable'') (\<lambda>variable.
     bind (call L Curve [df, VTuple [VStr ''date'', VStr ''Date''], variable] []) (\<lambda>curve.
     bind (attr L curve ''opts'') (\<lambda>opts.
     call L opts [] [(''framewise'', VBool True)]))))))))))))))))"

text \<open>
  \<^verbatim>\<open>load_symbol_cb(symbol, variable)\<close> of cell 6 returns \<^verbatim>\<open>load_symbol(symbol, variable)\<close>. The
  function that cell 2 defined is the value \<open>VFun ''__main__.load_symbol''\<close>; calling it runs
  its body, and calling anything else the global name may hold is the library's business.
\<close>

definition load_symbol_cb :: "'o lib \<Rightarrow> (string \<rightharpoonup> val) \<Rightarrow> val \<Rightarrow> val \<Rightarrow> ('o, val) py" where
  "load_symbol_cb L g symbol variable =
     bind (global_name g ''load_symbol'') (\<lambda>f.
       if f = VFun ''__main__.load_symbol'' then load_symbol L g symbol variable
       else call L f [symbol, variable] [])"

text \<open>
  \<^verbatim>\<open>AdvancedStockExplorer.view(self)\<close> of cell 7 is run from its syntax, so that the scope of
  each of its names is the one Python computes from the body.
\<close>

definition method_locals :: "stmt list \<Rightarrow> string list" where
  "method_locals body = local_names [Arg ''self''] body"

definition view :: "'o lib \<Rightarrow> (string \<rightharpoonup> val) \<Rightarrow> val
    \<Rightarrow> ('o, outcome \<times> (string \<rightharpoonup> val) \<times> (string \<rightharpoonup> val)) py" where
  "view L g self = exec_block L (method_locals view_body) view_body (g, [''self'' \<mapsto> self])"

subsection \<open>The two loaders agree with their syntax\<close>

definition load_symbol_locals :: "string list" where
  "load_symbol_locals =
     local_names [Arg ''symbol'', ArgDefault ''variable'' (Str ''adj_close''), KwArgs ''kwargs'']
       load_symbol_body"

lemma load_symbol_locals: "load_symbol_locals = [''symbol'', ''variable'', ''kwargs'', ''df'']"
  by (simp add: load_symbol_locals_def local_names_def load_symbol_body_def)

lemma local_name_Some [simp]: "l n = Some v \<Longrightarrow> local_name l n = return v"
  by (simp add: local_name_def)

text \<open>
  Running the syntax of cell 2's body on the arguments gives what \<open>load_symbol\<close> gives, and
  the globals it started from.
\<close>

lemma load_symbol_exec:
  "bind (exec_block L load_symbol_locals load_symbol_body
          (g, [''symbol'' \<mapsto> s, ''variable'' \<mapsto> v, ''kwargs'' \<mapsto> VDict []]))
        (\<lambda>(out, g', l'). return (out, g')) h =
   bind (load_symbol L g s v) (\<lambda>r. return (Returned r, g)) h"
  by (simp add: load_symbol_locals load_symbol_body_def load_symbol_def bind_assoc
      cong: bind_cong)

lemma StockExplorer_load_symbol_exec:
  "bind (exec_block L (method_locals StockExplorer_load_symbol_body) StockExplorer_load_symbol_body
          (g, [''self'' \<mapsto> self]))
        (\<lambda>(out, g', l'). return (out, g')) h =
   bind (StockExplorer_load_symbol L g self) (\<lambda>r. return (Returned r, g)) h"
  by (simp add: method_locals_def local_names_def StockExplorer_load_symbol_body_def
      StockExplorer_load_symbol_def bind_assoc cong: bind_cong)

subsection \<open>The three loaders agree with each other\<close>

lemma attr_VInst: "map_of ps a = Some x \<Longrightarrow> attr L (VInst ps) a = return x"
  by (simp add: attr_def)

lemma method_is_function:
  assumes "map_of ps ''symbol'' = Some s" and "map_of ps ''variable'' = Some v"
  shows "StockExplorer_load_symbol L g (VInst ps) = load_symbol L g s v"
proof
  fix h
  show "StockExplorer_load_symbol L g (VInst ps) h = load_symbol L g s v h"
    by (simp add: StockExplorer_load_symbol_def load_symbol_def attr_VInst assms bind_return_fun)
qed

lemma callback_is_function:
  assumes "g ''load_symbol'' = Some (VFun ''__main__.load_symbol'')"
  shows "load_symbol_cb L g s v = load_symbol L g s v"
proof
  fix h
  show "load_symbol_cb L g s v h = load_symbol L g s v h"
    by (simp add: load_symbol_cb_def global_name_def assms)
qed

text \<open>In the whole notebook only the \<^verbatim>\<open>def\<close> of cell 2 binds the global name \<^verbatim>\<open>load_symbol\<close>.\<close>

lemma load_symbol_bound_once:
  "filter (\<lambda>s. ''load_symbol'' \<in> set (assigned s)) notebook = [load_symbol_def]"
  by (simp add: nb_defs)

subsection \<open>Declarations read from the syntax\<close>

text \<open>
  The declaration of a parameter, as the class body writes it: \<^verbatim>\<open>param.Integer(default=d,
  bounds=(lo, hi))\<close>, \<^verbatim>\<open>param.ObjectSelector(default=d, objects=xs)\<close> with \<^verbatim>\<open>xs\<close> a list the
  notebook assigned before, and \<^verbatim>\<open>param.Boolean(default=b)\<close>.
\<close>

datatype pdecl = Integer int int int | ObjectSelector val "val list" | Boolean bool

fun literal :: "expr \<Rightarrow> val option" where
  "literal (Str s) = Some (VStr s)"
| "literal (Num i) = Some (VInt i)"
| "literal (FloatLit s) = Some (VFloat s)"
| "literal (BoolLit b) = Some (VBool b)"
| "literal e = None"

fun int_literal :: "expr \<Rightarrow> int option" where
  "int_literal (Num i) = Some i"
| "int_literal e = None"

fun bool_literal :: "expr \<Rightarrow> bool option" where
  "bool_literal (BoolLit b) = Some b"
| "bool_literal e = None"

fun int_pair :: "expr \<Rightarrow> (int \<times> int) option" where
  "int_pair (TupleE [Num lo, Num hi]) = Some (lo, hi)"
| "int_pair e = None"

fun list_value :: "expr \<Rightarrow> val list option" where
  "list_value (ListE es) =
     (if list_all (\<lambda>e. literal e \<noteq> None) es then Some (List.map_filter literal es) else None)"
| "list_value e = None"

fun name_of :: "expr \<Rightarrow> string option" where
  "name_of (Name n) = Some n"
| "name_of e = None"

fun keyword_arg :: "string \<Rightarrow> expr list \<Rightarrow> expr option" where
  "keyword_arg k [] = None"
| "keyword_arg k (Keyword k' e # as) = (if k = k' then Some e else keyword_arg k as)"
| "keyword_arg k (e # as) = keyword_arg k as"

definition integer_decl :: "expr list \<Rightarrow> pdecl option" where
  "integer_decl as =
     Option.bind (Option.bind (keyword_arg ''default'' as) int_literal) (\<lambda>d.
     Option.bind (Option.bind (keyword_arg ''bounds'' as) int_pair) (\<lambda>(lo, hi).
     Some (Integer d lo hi)))"

definition selector_decl :: "(string \<times> val list) list \<Rightarrow> expr list \<Rightarrow> pdecl option" where
  "selector_decl cs as =
     Option.bind (Option.bind (keyword_arg ''default'' as) literal) (\<lambda>d.
     Option.bind (Option.bind (Option.bind (keyword_arg ''objects'' as) name_of) (map_of cs)) (\<lambda>xs.
     Some (ObjectSelector d xs)))"

definition boolean_decl :: "expr list \<Rightarrow> pdecl option" where
  "boolean_decl as =
     Option.bind (Option.bind (keyword_arg ''default'' as) bool_literal) (\<lambda>b. Some (Boolean b))"

fun param_decl :: "(string \<times> val list) list \<Rightarrow> stmt \<Rightarrow> (string \<times> pdecl) option" where
  "param_decl cs (Assign (Name x) (Call (Attribute (Name m) t) as)) =
     (if m \<noteq> ''param'' then None
      else map_option (Pair x)
        (if t = ''Integer'' then integer_decl as
         else if t = ''ObjectSelector'' then selector_decl cs as
         else if t = ''Boolean'' then boolean_decl as
         else None))"
| "param_decl cs s = None"

fun base_decls :: "(string \<times> (string \<times> pdecl) list) list \<Rightarrow> expr \<Rightarrow> (string \<times> pdecl) list" where
  "base_decls tab (Name b) = (case map_of tab b of Some ds \<Rightarrow> ds | None \<Rightarrow> [])"
| "base_decls tab e = []"

text \<open>
  The cells in order: a list assigned to a global name is remembered (and forgotten when
  the name is assigned something else), a class gets the declarations of its bases and
  its own.
\<close>

fun decls_table :: "stmt list \<Rightarrow> (string \<times> val list) list \<Rightarrow> (string \<times> (string \<times> pdecl) list) list
    \<Rightarrow> (string \<times> (string \<times> pdecl) list) list" where
  "decls_table [] cs tab = tab"
| "decls_table (ClassDef c bs body # ss) cs tab =
     decls_table ss cs
       (tab @ [(c, concat (map (base_decls tab) bs) @ List.map_filter (param_decl cs) body)])"
| "decls_table (Assign (Name x) e # ss) cs tab =
     decls_table ss
       (case list_value e of Some vs \<Rightarrow> AList.update x vs cs | None \<Rightarrow> AList.delete x cs) tab"
| "decls_table (s # ss) cs tab = decls_table ss cs tab"

definition class_decls :: "stmt list \<Rightarrow> string \<Rightarrow> (string \<times> pdecl) list" where
  "class_decls nb c = (case map_of (decls_table nb [] []) c of Some ds \<Rightarrow> ds | None \<Rightarrow> [])"

definition stock_symbols :: "val list" where
  "stock_symbols = [VStr ''AAPL'', VStr ''IBM'', VStr ''FB'', VStr ''GOOG'', VStr ''MSFT'']"

definition variables :: "val list" where
  "variables =
     [VStr ''open'', VStr ''high'', VStr ''low'', VStr ''close'', VStr ''volume'', VStr ''adj_close'']"

definition StockExplorer_decls :: "(string \<times> pdecl) list" where
  "StockExplorer_decls =
     [(''rolling_window'', Integer 10 1 365),
      (''symbol'', ObjectSelector (VStr ''AAPL'') stock_symbols),
      (''variable'', ObjectSelector (VStr ''adj_close'') variables)]"

definition AdvancedStockExplorer_decls :: "(string \<times> pdecl) list" where
  "AdvancedStockExplorer_decls = StockExplorer_decls @ [(''datashade'', Boolean False)]"

lemma decls_table_notebook:
  "decls_table notebook [] [] =
     [(''StockExplorer'', StockExplorer_decls),
      (''AdvancedStockExplorer'', AdvancedStockExplorer_decls)]"
  by (simp add: nb_defs integer_decl_def selector_decl_def boolean_decl_def
      StockExplorer_decls_def AdvancedStockExplorer_decls_def stock_symbols_def variables_def)

lemma class_decls_notebook:
  "class_decls notebook ''StockExplorer'' = StockExplorer_decls"
  "class_decls notebook ''AdvancedStockExplorer'' = AdvancedStockExplorer_decls"
  by (simp_all add: class_decls_def decls_table_notebook)

text \<open>The slider of cell 6: \<^verbatim>\<open>pn.widgets.IntSlider(name=..., value=v, start=lo, end=hi)\<close>.\<close>

fun slider_decl :: "stmt \<Rightarrow> (string \<times> int \<times> int \<times> int) option" where
  "slider_decl (Assign (Name x) (Call (Attribute (Attribute (Name m) w) t) as)) =
     (if m = ''pn'' \<and> w = ''widgets'' \<and> t = ''IntSlider'' then
        Option.bind (Option.bind (keyword_arg ''value'' as) int_literal) (\<lambda>v.
        Option.bind (Option.bind (keyword_arg ''start'' as) int_literal) (\<lambda>lo.
        Option.bind (Option.bind (keyword_arg ''end'' as) int_literal) (\<lambda>hi.
        Some (x, v, lo, hi))))
      else None)"
| "slider_decl s = None"

lemma sliders_notebook:
  "List.map_filter slider_decl notebook = [(''rolling_window'', 10, 1, 365)]"
  by (simp add: nb_defs)

text \<open>
  Claim C8. The class-based and the function-based dashboard compute the same plot: for
  all arguments (those of \<^verbatim>\<open>stock_symbols\<close> and \<^verbatim>\<open>variables\<close> among them), in every state of the
  heap and with any library, \<^verbatim>\<open>load_symbol_cb(symbol, variable)\<close> returns what
  \<^verbatim>\<open>load_symbol(symbol, variable)\<close> returns (the global name \<^verbatim>\<open>load_symbol\<close> holding the function
  of cell 2, its only binding in the notebook), and that is what the method
  \<^verbatim>\<open>StockExplorer.load_symbol\<close> returns on an instance whose parameters \<^verbatim>\<open>symbol\<close> and
  \<^verbatim>\<open>variable\<close> hold these values; results, raised exceptions and effects on the heap are
  the same. The slider of the function-based dashboard (\<^verbatim>\<open>value=10, start=1, end=365\<close>)
  has the default and the bounds of the class's \<^verbatim>\<open>rolling_window\<close>
  (\<^verbatim>\<open>default=10, bounds=(1, 365)\<close>).
\<close>

theorem C8_dashboards_agree:
  assumes "g ''load_symbol'' = Some (VFun ''__main__.load_symbol'')"
    and "map_of ps ''symbol'' = Some s"
    and "map_of ps ''variable'' = Some v"
  shows "load_symbol_cb L g s v h = load_symbol L g s v h
    \<and> load_symbol L g s v h = StockExplorer_load_symbol L g (VInst ps) h
    \<and> filter (\<lambda>s. ''load_symbol'' \<in> set (assigned s)) notebook = [load_symbol_def]
    \<and> List.map_filter slider_decl notebook = [(''rolling_window'', 10, 1, 365)]
    \<and> map_of (class_decls notebook ''StockExplorer'') ''rolling_window'' = Some (Integer 10 1 365)"
  using assms
  by (simp add: callback_is_function method_is_function load_symbol_bound_once
      sliders_notebook class_decls_notebook StockExplorer_decls_def)

section \<open>A reference model of the libraries\<close>

text \<open>
  Modelled from the spec: the spec leaves data loading, plot construction and the sample
  data to the external libraries (``all data (stock price series) is synthetic sample data
  owned by an external library''), and their code is not part of the notebook. What follows
  is a small model of the library calls the notebook makes, after the documented behaviour
  of pandas and HoloViews; statements that hold for every library are proved for every
  \<open>L\<close>, and this model is used where a statement is about the data itself, and to run the
  functions on concrete inputs.

  A cell of a column is a text, a number or a timestamp; the notebook never computes with
  the numbers, so their type is left open. The sample data of a symbol is a dictionary of
  columns; \<^verbatim>\<open>pd.DataFrame(d)\<close> makes a new frame with a copy of the columns; \<^verbatim>\<open>df.date\<close> is
  the column as a new series; \<^verbatim>\<open>astype('datetime64[ns]')\<close> makes a new series with the
  converted cells (the conversion \<open>conv\<close> is a parameter, and may fail);
  \<^verbatim>\<open>df['date'] = s\<close> replaces the column of the frame in place; \<^verbatim>\<open>hv.Curve(df, kdim, vdim)\<close>
  is a new element that refers to the frame and needs both dimensions among its columns;
  \<^verbatim>\<open>.opts(...)\<close> gives a copy of the element with the options added. Every other library
  function returns a new opaque object.
\<close>

datatype 'f cell = Text string | Number 'f | Timestamp int

datatype 'f obj =
    Module "(string \<times> val) list"
  | Dict "(string \<times> 'f cell list) list"
  | DataFrame "(string \<times> 'f cell list) list"
  | Series "'f cell list"
  | Curve val val val "(string \<times> val) list"
  | Opaque string "val list" "(string \<times> val) list"

definition alloc :: "'o \<Rightarrow> ('o, val) py" where
  "alloc ob h = Inr (VRef (length h), h @ [ob])"

definition deref :: "val \<Rightarrow> 'o list \<Rightarrow> 'o option" where
  "deref v h = (case v of VRef a \<Rightarrow> (if a < length h then Some (h ! a) else None) | _ \<Rightarrow> None)"

definition ref_load_attr :: "val \<Rightarrow> string \<Rightarrow> ('f obj, val) py" where
  "ref_load_attr v n h =
     (case deref v h of
        Some (Module as) \<Rightarrow>
          (case map_of as n of
             Some x \<Rightarrow> return x h
           | None \<Rightarrow> raise (Raised ''AttributeError'' n) h)
      | Some (DataFrame cols) \<Rightarrow>
          (case map_of cols n of
             Some c \<Rightarrow> alloc (Series c) h
           | None \<Rightarrow> raise (Raised ''AttributeError'' n) h)
      | Some (Series c) \<Rightarrow>
          (if n = ''astype'' then return (VMethod v n) h else raise (Raised ''AttributeError'' n) h)
      | Some (Curve d k vd os) \<Rightarrow>
          (if n = ''opts'' then return (VMethod v n) h else raise (Raised ''AttributeError'' n) h)
      | Some (Opaque f ps ks) \<Rightarrow> return (VMethod v n) h
      | Some (Dict cols) \<Rightarrow> raise (Raised ''AttributeError'' n) h
      | None \<Rightarrow>
          (case v of
             VInst ps \<Rightarrow> return (VMethod v n) h
           | VMethod ob m \<Rightarrow> return (VMethod v n) h
           | VFun f \<Rightarrow> return (VMethod v n) h
           | _ \<Rightarrow> raise (Raised ''AttributeError'' n) h))"

fun dim_name :: "val \<Rightarrow> string option" where
  "dim_name (VStr n) = Some n"
| "dim_name (VTuple [VStr n, VStr label]) = Some n"
| "dim_name v = None"

definition has_column :: "(string \<times> 'a) list \<Rightarrow> val \<Rightarrow> bool" where
  "has_column cols d = (case dim_name d of Some n \<Rightarrow> map_of cols n \<noteq> None | None \<Rightarrow> False)"

definition ref_function :: "string \<Rightarrow> val list \<Rightarrow> (string \<times> val) list \<Rightarrow> ('f obj, val) py" where
  "ref_function f ps ks h =
     (if f = ''getattr'' then
        (case (ps, ks) of
           ([ob, VStr n], []) \<Rightarrow> ref_load_attr ob n h
         | _ \<Rightarrow> raise (Raised ''TypeError'' f) h)
      else if f = ''pandas.DataFrame'' then
        (case (ps, ks) of
           ([d], []) \<Rightarrow>
             (case deref d h of
                Some (Dict cols) \<Rightarrow> alloc (DataFrame cols) h
              | _ \<Rightarrow> raise (Raised ''ValueError'' f) h)
         | _ \<Rightarrow> raise (Raised ''TypeError'' f) h)
      else if f = ''holoviews.Curve'' then
        (case (ps, ks) of
           ([d, k, v], []) \<Rightarrow>
             (case deref d h of
                Some (DataFrame cols) \<Rightarrow>
                  (if has_column cols k \<and> has_column cols v then alloc (Curve d k v []) h
                   else raise (Raised ''DataError'' f) h)
              | _ \<Rightarrow> raise (Raised ''DataError'' f) h)
         | _ \<Rightarrow> raise (Raised ''TypeError'' f) h)
      else alloc (Opaque f ps ks) h)"

definition ref_method :: "('f cell list \<Rightarrow> 'f cell list option) \<Rightarrow> val \<Rightarrow> string \<Rightarrow> val list
    \<Rightarrow> (string \<times> val) list \<Rightarrow> ('f obj, val) py" where
  "ref_method conv ob m ps ks h =
     (case deref ob h of
        Some (Series c) \<Rightarrow>
          (if m = ''astype'' \<and> ps = [VStr ''datetime64[ns]''] \<and> ks = [] then
             (case conv c of
                Some c' \<Rightarrow> alloc (Series c') h
              | None \<Rightarrow> raise (Raised ''ValueError'' m) h)
           else raise (Raised ''TypeError'' m) h)
      | Some (Curve d k v os) \<Rightarrow>
          (if m = ''opts'' \<and> ps = [] then alloc (Curve d k v (os @ ks)) h
           else raise (Raised ''TypeError'' m) h)
      | _ \<Rightarrow> alloc (Opaque m (ob # ps) ks) h)"

definition ref_call :: "('f cell list \<Rightarrow> 'f cell list option) \<Rightarrow> val \<Rightarrow> val list
    \<Rightarrow> (string \<times> val) list \<Rightarrow> ('f obj, val) py" where
  "ref_call conv f ps ks h =
     (case f of
        VFun n \<Rightarrow> ref_function n ps ks h
      | VMethod ob m \<Rightarrow> ref_method conv ob m ps ks h
      | _ \<Rightarrow> raise (Raised ''TypeError'' ''not callable'') h)"

definition ref_store_item :: "val \<Rightarrow> val \<Rightarrow> val \<Rightarrow> ('f obj, unit) py" where
  "ref_store_item ob k v h =
     (case (ob, k, deref ob h, deref v h) of
        (VRef a, VStr n, Some (DataFrame cols), Some (Series c)) \<Rightarrow>
          Inr ((), h[a := DataFrame (AList.update n c cols)])
      | _ \<Rightarrow> raise (Raised ''TypeError'' ''item assignment'') h)"

definition ref_multiply :: "val \<Rightarrow> val \<Rightarrow> ('f obj, val) py" where
  "ref_multiply a b = alloc (Opaque ''*'' [a, b] [])"

fun truthy :: "val \<Rightarrow> bool" where
  "truthy VNone = False"
| "truthy (VBool b) = b"
| "truthy (VInt i) = (i \<noteq> 0)"
| "truthy (VStr s) = (s \<noteq> [])"
| "truthy (VList vs) = (vs \<noteq> [])"
| "truthy (VTuple vs) = (vs \<noteq> [])"
| "truthy (VDict kvs) = (kvs \<noteq> [])"
| "truthy v = True"

definition ref_lib :: "('f cell list \<Rightarrow> 'f cell list option) \<Rightarrow> 'f obj lib" where
  "ref_lib conv =
     \<lparr>load_attr = ref_load_attr,
      call = ref_call conv,
      store_item = ref_store_item,
      multiply = ref_multiply,
      truth = (\<lambda>v. return (truthy v))\<rparr>"

text \<open>
  The state in which the loaders find what they need: \<^verbatim>\<open>getattr\<close> is the builtin, \<^verbatim>\<open>pd\<close> and
  \<^verbatim>\<open>hv\<close> are the modules that cell 1 imported. \<open>sample_data g h symbol\<close> is the dictionary
  of columns that the module \<^verbatim>\<open>stocks\<close> holds under the attribute \<open>symbol\<close>, if any.
\<close>

definition provides :: "(string \<rightharpoonup> val) \<Rightarrow> 'f obj list \<Rightarrow> string \<Rightarrow> string \<Rightarrow> val \<Rightarrow> bool" where
  "provides g h m a x =
     (case g m of
        Some mv \<Rightarrow> (case deref mv h of Some (Module as) \<Rightarrow> map_of as a = Some x | _ \<Rightarrow> False)
      | None \<Rightarrow> False)"

definition sample_env :: "(string \<rightharpoonup> val) \<Rightarrow> 'f obj list \<Rightarrow> bool" where
  "sample_env g h =
     (g ''getattr'' = None \<and>
      provides g h ''pd'' ''DataFrame'' (VFun ''pandas.DataFrame'') \<and>
      provides g h ''hv'' ''Curve'' (VFun ''holoviews.Curve''))"

definition sample_data :: "(string \<rightharpoonup> val) \<Rightarrow> 'f obj list \<Rightarrow> string
    \<Rightarrow> (string \<times> 'f cell list) list option" where
  "sample_data g h symbol =
     (case g ''stocks'' of
        Some st \<Rightarrow>
          (case deref st h of
             Some (Module as) \<Rightarrow>
               (case map_of as symbol of
                  Some d \<Rightarrow> (case deref d h of Some (Dict cols) \<Rightarrow> Some cols | _ \<Rightarrow> None)
                | None \<Rightarrow> None)
           | _ \<Rightarrow> None)
      | None \<Rightarrow> None)"

text \<open>What a curve shows: the columns of its frame, its two dimensions and its options.\<close>

definition curve_content :: "'f obj list \<Rightarrow> val
    \<Rightarrow> ((string \<times> 'f cell list) list \<times> val \<times> val \<times> (string \<times> val) list) option" where
  "curve_content h c =
     (case deref c h of
        Some (Curve d k v os) \<Rightarrow>
          (case deref d h of Some (DataFrame cols) \<Rightarrow> Some (cols, k, v, os) | _ \<Rightarrow> None)
      | _ \<Rightarrow> None)"

subsection \<open>One step of the reference model at a time\<close>

lemma deref_VRef: "deref v h = Some ob \<Longrightarrow> \<exists>a. v = VRef a \<and> a < length h \<and> h ! a = ob"
  by (auto simp: deref_def split: val.splits if_splits)

lemma deref_Ref [simp]: "deref (VRef a) h = (if a < length h then Some (h ! a) else None)"
  by (simp add: deref_def)

lemma deref_append_old [simp]: "deref v h = Some ob \<Longrightarrow> deref v (h @ xs) = Some ob"
  by (auto simp: deref_def nth_append split: val.splits if_splits)

lemma attr_deref [simp]: "deref v h = Some ob \<Longrightarrow> attr L v a h = load_attr L v a h"
  by (auto simp: attr_def dest: deref_VRef)

lemma ref_lib_sel [simp]:
  "load_attr (ref_lib conv) = ref_load_attr"
  "call (ref_lib conv) = ref_call conv"
  "store_item (ref_lib conv) = ref_store_item"
  "multiply (ref_lib conv) = ref_multiply"
  "truth (ref_lib conv) = (\<lambda>v. return (truthy v))"
  by (simp_all add: ref_lib_def)

lemma ref_load_attr_Module [simp]:
  "deref v h = Some (Module as) \<Longrightarrow> map_of as n = Some x \<Longrightarrow> ref_load_attr v n h = Inr (x, h)"
  by (simp add: ref_load_attr_def return_def)

lemma ref_load_attr_Module_absent [simp]:
  "deref v h = Some (Module as) \<Longrightarrow> map_of as n = None \<Longrightarrow>
     ref_load_attr v n h = Inl (Raised ''AttributeError'' n)"
  by (simp add: ref_load_attr_def raise_def)

lemma ref_load_attr_DataFrame [simp]:
  "deref v h = Some (DataFrame cols) \<Longrightarrow> map_of cols n = Some c \<Longrightarrow>
     ref_load_attr v n h = Inr (VRef (length h), h @ [Series c])"
  by (simp add: ref_load_attr_def alloc_def)

lemma ref_load_attr_Series [simp]:
  "deref v h = Some (Series c) \<Longrightarrow> ref_load_attr v ''astype'' h = Inr (VMethod v ''astype'', h)"
  by (simp add: ref_load_attr_def return_def)

lemma ref_load_attr_Curve [simp]:
  "deref v h = Some (Curve d k vd os) \<Longrightarrow> ref_load_attr v ''opts'' h = Inr (VMethod v ''opts'', h)"
  by (simp add: ref_load_attr_def return_def)

lemma ref_call_getattr [simp]:
  "ref_call conv (VFun ''getattr'') [ob, VStr n] [] h = ref_load_attr ob n h"
  by (simp add: ref_call_def ref_function_def)

lemma ref_call_DataFrame [simp]:
  "deref d h = Some (Dict cols) \<Longrightarrow>
     ref_call conv (VFun ''pandas.DataFrame'') [d] [] h = Inr (VRef (length h), h @ [DataFrame cols])"
  by (simp add: ref_call_def ref_function_def alloc_def)

lemma ref_call_astype [simp]:
  "deref s h = Some (Series c) \<Longrightarrow> conv c = Some c' \<Longrightarrow>
     ref_call conv (VMethod s ''astype'') [VStr ''datetime64[ns]''] [] h =
       Inr (VRef (length h), h @ [Series c'])"
  by (simp add: ref_call_def ref_method_def alloc_def)

lemma ref_call_Curve [simp]:
  "deref d h = Some (DataFrame cols) \<Longrightarrow> has_column cols k \<Longrightarrow> has_column cols v \<Longrightarrow>
     ref_call conv (VFun ''holoviews.Curve'') [d, k, v] [] h =
       Inr (VRef (length h), h @ [Curve d k v []])"
  by (simp add: ref_call_def ref_function_def alloc_def)

lemma ref_call_opts [simp]:
  "deref c h = Some (Curve d k v os) \<Longrightarrow>
     ref_call conv (VMethod c ''opts'') [] ks h = Inr (VRef (length h), h @ [Curve d k v (os @ ks)])"
  by (simp add: ref_call_def ref_method_def alloc_def)

lemma ref_store_item_DataFrame [simp]:
  "a < length h \<Longrightarrow> h ! a = DataFrame cols \<Longrightarrow> deref s h = Some (Series c) \<Longrightarrow>
     ref_store_item (VRef a) (VStr n) s h = Inr ((), h[a := DataFrame (AList.update n c cols)])"
  by (simp add: ref_store_item_def deref_def)

lemma has_column_simps [simp]:
  "has_column cols (VStr n) = (map_of cols n \<noteq> None)"
  "has_column cols (VTuple [VStr n, VStr label]) = (map_of cols n \<noteq> None)"
  by (simp_all add: has_column_def)

text \<open>
  The loader in the reference model, on a symbol the sample data has and a variable that
  is one of its columns: five objects are allocated (the frame, the two series, the curve
  and its copy with the option), and nothing else changes.
\<close>

lemma load_symbol_ref:
  assumes env: "sample_env g h"
    and data: "sample_data g h symbol = Some cols"
    and date: "map_of cols ''date'' = Some dc"
    and conv: "conv dc = Some dc'"
    and var: "map_of cols variable = Some vc"
  shows "load_symbol (ref_lib conv) g (VStr symbol) (VStr variable) h =
     Inr (VRef (length h + 4),
          h @ [DataFrame (AList.update ''date'' dc' cols), Series dc, Series dc',
               Curve (VRef (length h)) (VTuple [VStr ''date'', VStr ''Date'']) (VStr variable) [],
               Curve (VRef (length h)) (VTuple [VStr ''date'', VStr ''Date'']) (VStr variable)
                 [(''framewise'', VBool True)]])"
proof -
  from env obtain pd pm hv hm where
    g: "g ''getattr'' = None" "g ''pd'' = Some pd" "g ''hv'' = Some hv"
    and pd: "deref pd h = Some (Module pm)" "map_of pm ''DataFrame'' = Some (VFun ''pandas.DataFrame'')"
    and hv: "deref hv h = Some (Module hm)" "map_of hm ''Curve'' = Some (VFun ''holoviews.Curve'')"
    by (auto simp: sample_env_def provides_def split: option.splits obj.splits)
  from data obtain st sm d where
    st: "g ''stocks'' = Some st" "deref st h = Some (Module sm)" "map_of sm symbol = Some d"
      "deref d h = Some (Dict cols)"
    by (auto simp: sample_data_def split: option.splits obj.splits)
  show ?thesis
    using g pd hv st date conv var
    by (simp add: load_symbol_def global_name_def builtins_def bind_def return_def
        nth_append list_update_append update_conv')
qed

lemma curve_content_load_symbol_ref:
  "curve_content
     (h @ [DataFrame cols, s1, s2, c1, Curve (VRef (length h)) k v os]) (VRef (length h + 4)) =
     Some (cols, k, v, os)"
  by (simp add: curve_content_def nth_append)

lemma ref_call_other:
  "f \<noteq> ''getattr'' \<Longrightarrow> f \<noteq> ''pandas.DataFrame'' \<Longrightarrow> f \<noteq> ''holoviews.Curve'' \<Longrightarrow>
     ref_call conv (VFun f) ps ks h = Inr (VRef (length h), h @ [Opaque f ps ks])"
  by (simp add: ref_call_def ref_function_def alloc_def)

lemma ref_load_attr_value [simp]:
  "ref_load_attr (VInst ps) n h = Inr (VMethod (VInst ps) n, h)"
  "ref_load_attr (VMethod ob m) n h = Inr (VMethod (VMethod ob m) n, h)"
  by (simp_all add: ref_load_attr_def deref_def return_def)

lemma ref_load_attr_Opaque [simp]:
  "deref v h = Some (Opaque f ps ks) \<Longrightarrow> ref_load_attr v n h = Inr (VMethod v n, h)"
  by (simp add: ref_load_attr_def return_def)

lemma ref_call_method_Opaque [simp]:
  "deref ob h = Some (Opaque f ps' ks') \<Longrightarrow>
     ref_call conv (VMethod ob m) ps ks h = Inr (VRef (length h), h @ [Opaque m (ob # ps) ks])"
  by (simp add: ref_call_def ref_method_def alloc_def)

lemma attr_VInst_other: "map_of ps a = None \<Longrightarrow> attr L (VInst ps) a = load_attr L (VInst ps) a"
  by (simp add: attr_def)

lemma attr_VMethod [simp]: "attr L (VMethod ob m) a = load_attr L (VMethod ob m) a"
  by (simp add: attr_def)

lemma attr_VRef [simp]: "attr L (VRef r) a = load_attr L (VRef r) a"
  by (simp add: attr_def)

section \<open>A concrete state\<close>

text \<open>
  A small state to run the functions in: the three modules of cell 1 at the addresses 0, 1
  and 2, the sample data of the five symbols (two rows each) behind them, the globals as
  the cells have bound them, and an explorer with \<^verbatim>\<open>datashade\<close> switched on. The
  conversion knows the two dates of the sample.
\<close>

definition dates0 :: "(string \<times> int) list" where
  "dates0 = [(''2000-03-01'', 951868800), (''2000-03-02'', 951955200)]"

fun to_timestamp :: "int cell \<Rightarrow> int cell option" where
  "to_timestamp (Text s) = map_option Timestamp (map_of dates0 s)"
| "to_timestamp (Timestamp t) = Some (Timestamp t)"
| "to_timestamp (Number n) = None"

definition conv0 :: "int cell list \<Rightarrow> int cell list option" where
  "conv0 c = those (map to_timestamp c)"

definition columns0 :: "int \<Rightarrow> (string \<times> int cell list) list" where
  "columns0 p =
     [(''date'', [Text ''2000-03-01'', Text ''2000-03-02'']),
      (''open'', [Number p, Number (p + 3)]),
      (''high'', [Number (p + 5), Number (p + 4)]),
      (''low'', [Number (p - 2), Number (p + 1)]),
      (''close'', [Number (p + 3), Number (p + 2)]),
      (''volume'', [Number 1000, Number 1200]),
      (''adj_close'', [Number (p + 3), Number (p + 2)])]"

definition heap0 :: "int obj list" where
  "heap0 =
     [Module [(''DataFrame'', VFun ''pandas.DataFrame'')],
      Module [(''Curve'', VFun ''holoviews.Curve''), (''DynamicMap'', VFun ''holoviews.DynamicMap'')],
      Module [(''AAPL'', VRef 3), (''IBM'', VRef 4), (''FB'', VRef 5), (''GOOG'', VRef 6),
              (''MSFT'', VRef 7)],
      Dict (columns0 130), Dict (columns0 100), Dict (columns0 38), Dict (columns0 560),
      Dict (columns0 50)]"

definition globals0 :: "string \<rightharpoonup> val" where
  "globals0 = map_of
     [(''pd'', VRef 0), (''hv'', VRef 1), (''stocks'', VRef 2),
      (''rolling'', VFun ''holoviews.operation.timeseries.rolling''),
      (''rolling_outlier_std'', VFun ''holoviews.operation.timeseries.rolling_outlier_std''),
      (''datashade'', VFun ''holoviews.operation.datashader.datashade''),
      (''dynspread'', VFun ''holoviews.operation.datashader.dynspread''),
      (''load_symbol'', VFun ''__main__.load_symbol'')]"

definition params0 :: "(string \<times> val) list" where
  "params0 =
     [(''rolling_window'', VInt 10), (''symbol'', VStr ''AAPL''),
      (''variable'', VStr ''adj_close''), (''datashade'', VBool True)]"

definition explorer0 :: val where
  "explorer0 = VInst params0"

definition dates0_converted :: "int cell list" where
  "dates0_converted = [Timestamp 951868800, Timestamp 951955200]"

definition heap0_loaded :: "int obj list" where
  "heap0_loaded =
     heap0 @
     [DataFrame (AList.update ''date'' dates0_converted (columns0 130)),
      Series [Text ''2000-03-01'', Text ''2000-03-02''],
      Series dates0_converted,
      Curve (VRef 8) (VTuple [VStr ''date'', VStr ''Date'']) (VStr ''adj_close'') [],
      Curve (VRef 8) (VTuple [VStr ''date'', VStr ''Date'']) (VStr ''adj_close'')
        [(''framewise'', VBool True)]]"

lemma heap0_facts [simp]:
  "length heap0 = 8"
  "heap0 ! 0 = Module [(''DataFrame'', VFun ''pandas.DataFrame'')]"
  "heap0 ! Suc 0 =
     Module [(''Curve'', VFun ''holoviews.Curve''), (''DynamicMap'', VFun ''holoviews.DynamicMap'')]"
  by (simp_all add: heap0_def)

lemma sample_env0: "sample_env globals0 heap0"
  by (simp add: sample_env_def provides_def globals0_def heap0_def)

lemma sample_data0: "sample_data globals0 heap0 ''AAPL'' = Some (columns0 130)"
  by (simp add: sample_data_def globals0_def heap0_def)

lemma conv0_dates: "conv0 [Text ''2000-03-01'', Text ''2000-03-02''] = Some dates0_converted"
  by (simp add: conv0_def dates0_def dates0_converted_def)

lemma load_symbol0:
  "load_symbol (ref_lib conv0) globals0 (VStr ''AAPL'') (VStr ''adj_close'') heap0 =
     Inr (VRef 12, heap0_loaded)"
  using load_symbol_ref[OF sample_env0 sample_data0, of "[Text ''2000-03-01'', Text ''2000-03-02'']"
      conv0 dates0_converted "''adj_close''"]
  by (simp add: conv0_dates columns0_def heap0_loaded_def)

lemma load_symbol0_absent:
  "load_symbol (ref_lib conv0) globals0 (VStr ''TSLA'') (VStr ''adj_close'') heap0 =
     Inl (Raised ''AttributeError'' ''TSLA'')"
  by (simp add: load_symbol_def global_name_def builtins_def globals0_def heap0_def bind_def
      return_def attr_def ref_load_attr_def raise_def)

lemma view_locals:
  "method_locals view_body = [''self'', ''stocks'', ''smoothed'', ''smoothed'', ''outliers'']"
  by (simp add: method_locals_def local_names_def view_body_def)

lemma view0:
  "\<exists>l. view (ref_lib conv0) globals0 explorer0 heap0 =
     Inr ((Returned (VRef 15), globals0, l),
       heap0 @
       [Opaque ''holoviews.DynamicMap'' [VMethod explorer0 ''load_symbol''] [],
        Opaque ''holoviews.operation.timeseries.rolling'' [VRef 8]
          [(''rolling_window'', VMethod (VMethod explorer0 ''param'') ''rolling_window'')],
        Opaque ''holoviews.operation.datashader.datashade'' [VRef 9] [(''aggregator'', VStr ''any'')],
        Opaque ''holoviews.operation.datashader.dynspread'' [VRef 10] [],
        Opaque ''opts'' [VRef 11] [(''framewise'', VBool True)],
        Opaque ''holoviews.operation.timeseries.rolling_outlier_std'' [VRef 8]
          [(''rolling_window'', VMethod (VMethod explorer0 ''param'') ''rolling_window'')],
        Opaque ''opts'' [VRef 13]
          [(''width'', VInt 600), (''color'', VStr ''red''), (''marker'', VStr ''triangle''),
           (''framewise'', VBool True)],
        Opaque ''*'' [VRef 12, VRef 14] []])
     \<and> l ''stocks'' = Some (VRef 8)"
  unfolding view_def view_locals
  unfolding view_body_def
  by (simp add: global_name_def builtins_def globals0_def explorer0_def params0_def bind_def
      return_def attr_VInst attr_VInst_other ref_call_other ref_multiply_def alloc_def nth_append)

section \<open>What the loaders change\<close>

text \<open>
  The operations that the two loader bodies ask of the library: they load the attributes
  \<^verbatim>\<open>DataFrame\<close>, \<^verbatim>\<open>date\<close>, \<^verbatim>\<open>astype\<close>, \<^verbatim>\<open>Curve\<close> and \<^verbatim>\<open>opts\<close> (the method also \<^verbatim>\<open>symbol\<close> and
  \<^verbatim>\<open>variable\<close>, from \<^verbatim>\<open>self\<close>), they call \<^verbatim>\<open>getattr\<close> and what the attributes \<^verbatim>\<open>DataFrame\<close>,
  \<^verbatim>\<open>astype\<close>, \<^verbatim>\<open>Curve\<close> and \<^verbatim>\<open>opts\<close> provided, and they assign the item \<^verbatim>\<open>'date'\<close>.
\<close>

fun attribute_names :: "expr \<Rightarrow> string list" where
  "attribute_names (Attribute e a) = attribute_names e @ [a]"
| "attribute_names (Call f as) = attribute_names f @ concat (map attribute_names as)"
| "attribute_names (Keyword k e) = attribute_names e"
| "attribute_names (ListE es) = concat (map attribute_names es)"
| "attribute_names (TupleE es) = concat (map attribute_names es)"
| "attribute_names (Subscript e i) = attribute_names e @ attribute_names i"
| "attribute_names (Mult a b) = attribute_names a @ attribute_names b"
| "attribute_names e = []"

definition loader_attributes :: "string list" where
  "loader_attributes =
     [''DataFrame'', ''symbol'', ''date'', ''astype'', ''Curve'', ''variable'', ''opts'']"

lemma loader_attributes:
  "set (concat (map attribute_names (concat (map stmt_exprs load_symbol_body))))
     \<subseteq> set loader_attributes"
  "set (concat (map attribute_names (concat (map stmt_exprs StockExplorer_load_symbol_body))))
     = set loader_attributes"
  by (auto simp: load_symbol_body_def StockExplorer_load_symbol_body_def loader_attributes_def)

definition provided :: "'o lib \<Rightarrow> string \<Rightarrow> val \<Rightarrow> bool" where
  "provided L n f = (\<exists>v h k. attr L v n h = Inr (f, k))"

definition loader_callee :: "'o lib \<Rightarrow> (string \<rightharpoonup> val) \<Rightarrow> val \<Rightarrow> bool" where
  "loader_callee L g f =
     ((case g ''getattr'' of Some x \<Rightarrow> f = x | None \<Rightarrow> builtins ''getattr'' = Some f) \<or>
      provided L ''DataFrame'' f \<or> provided L ''astype'' f \<or>
      provided L ''Curve'' f \<or> provided L ''opts'' f)"

text \<open>
  Three properties these operations may have. A computation allocates only when every
  heap it returns extends the heap it was given. The assignment of the item \<^verbatim>\<open>'date'\<close>
  writes its receiver only when it keeps every other object. A callable constructs fresh
  objects when the references it returns are to objects that did not exist before the
  call. A library respects the loaders' frame when the attribute loads and the calls that
  the loaders make allocate only and the item assignment writes its receiver only.
\<close>

definition allocates_only :: "('o, 'a) py \<Rightarrow> bool" where
  "allocates_only m = (\<forall>h r h'. m h = Inr (r, h') \<longrightarrow> prefix h h')"

definition writes_receiver_only :: "'o lib \<Rightarrow> bool" where
  "writes_receiver_only L =
     (\<forall>ob v h u h'. store_item L ob (VStr ''date'') v h = Inr (u, h') \<longrightarrow>
        length h \<le> length h' \<and> (\<forall>a < length h. ob \<noteq> VRef a \<longrightarrow> h' ! a = h ! a))"

definition frame_respecting :: "'o lib \<Rightarrow> (string \<rightharpoonup> val) \<Rightarrow> bool" where
  "frame_respecting L g =
     ((\<forall>v n. n \<in> set loader_attributes \<longrightarrow> allocates_only (load_attr L v n)) \<and>
      (\<forall>f ps ks. loader_callee L g f \<longrightarrow> allocates_only (call L f ps ks)) \<and>
      writes_receiver_only L)"

definition constructs_fresh :: "'o lib \<Rightarrow> val \<Rightarrow> bool" where
  "constructs_fresh L F =
     (\<forall>ps ks h r h' a. call L F ps ks h = Inr (r, h') \<longrightarrow> r = VRef a \<longrightarrow> length h \<le> a)"

text \<open>The frame of pandas' constructor, as far as a loader at heap \<open>h\<close> can see it.\<close>

definition fresh_frames :: "'o lib \<Rightarrow> (string \<rightharpoonup> val) \<Rightarrow> 'o list \<Rightarrow> bool" where
  "fresh_frames L g h =
     (\<forall>pd F k. g ''pd'' = Some pd \<longrightarrow> attr L pd ''DataFrame'' h = Inr (F, k) \<longrightarrow>
        constructs_fresh L F)"

lemma global_name_heap: "global_name g n h = Inr (x, k) \<Longrightarrow> k = h"
  by (auto simp: global_name_def return_def raise_def split: option.splits)

lemma global_name_bound:
  "global_name g n h = Inr (x, k) \<Longrightarrow> builtins n = None \<Longrightarrow> g n = Some x"
  by (auto simp: global_name_def return_def raise_def split: option.splits)

lemma attr_prefix:
  "frame_respecting L g \<Longrightarrow> attr L v a h = Inr (x, k) \<Longrightarrow> a \<in> set loader_attributes \<Longrightarrow>
     prefix h k"
  by (auto simp: attr_def frame_respecting_def allocates_only_def return_def
      split: val.splits option.splits)

lemma call_prefix:
  "frame_respecting L g \<Longrightarrow> call L f ps ks h = Inr (x, k) \<Longrightarrow> loader_callee L g f \<Longrightarrow>
     prefix h k"
  by (auto simp: frame_respecting_def allocates_only_def)

lemma callee_getattr: "global_name g ''getattr'' h = Inr (f, k) \<Longrightarrow> loader_callee L g f"
  by (auto simp: loader_callee_def global_name_def return_def raise_def split: option.splits)

lemma callee_provided:
  "attr L v n h = Inr (f, k) \<Longrightarrow> n \<in> {''DataFrame'', ''astype'', ''Curve'', ''opts''} \<Longrightarrow>
     loader_callee L g f"
  unfolding loader_callee_def provided_def by blast

lemma store_item_prefix:
  assumes L: "frame_respecting L g"
    and st: "store_item L ob (VStr ''date'') v h = Inr (u, h')"
    and old: "prefix h0 h"
    and fresh: "\<And>a. ob = VRef a \<Longrightarrow> length h0 \<le> a"
  shows "prefix h0 h'"
proof -
  from L st have len: "length h \<le> length h'"
    and same: "\<And>a. a < length h \<Longrightarrow> ob \<noteq> VRef a \<Longrightarrow> h' ! a = h ! a"
    by (auto simp: frame_respecting_def writes_receiver_only_def)
  from old obtain zs where h: "h = h0 @ zs" by (auto simp: prefix_def)
  have "take (length h0) h' = h0"
  proof (rule nth_equalityI)
    show "length (take (length h0) h') = length h0" using len h by simp
  next
    fix i assume "i < length (take (length h0) h')"
    then have i: "i < length h0" by simp
    then have "ob \<noteq> VRef i" using fresh by fastforce
    with i h have "h' ! i = h ! i" by (intro same) simp_all
    with i h show "take (length h0) h' ! i = h0 ! i" by (simp add: nth_append)
  qed
  then show ?thesis by (metis take_is_prefix)
qed

text \<open>
  The loader changes no object that existed when it was called: the only object it
  writes is the frame it has just constructed.
\<close>

lemma load_symbol_frame:
  assumes L: "frame_respecting L g"
    and fresh: "fresh_frames L g h"
    and run: "load_symbol L g s v h = Inr (r, h')"
  shows "prefix h h'"
  using run unfolding load_symbol_def
proof (elim bind_Inr, goal_cases)
  case (1 pd h1 F h2 ga h3 st h4 data h5 df h6 date h7 astype h8 conv h9 u h10 hv h11
      C h12 curve h13 opts h14)
  note s = 1
  note at = attr_prefix[OF L]
  note ca = call_prefix[OF L]
  have h1: "h1 = h" using s(1) by (rule global_name_heap)
  have a2: "prefix h1 h2" using s(2) by (rule at) (simp add: loader_attributes_def)
  have a7: "prefix h6 h7" using s(7) by (rule at) (simp add: loader_attributes_def)
  have a8: "prefix h7 h8" using s(8) by (rule at) (simp add: loader_attributes_def)
  have a12: "prefix h11 h12" using s(12) by (rule at) (simp add: loader_attributes_def)
  have a14: "prefix h13 h14" using s(14) by (rule at) (simp add: loader_attributes_def)
  have p2: "prefix h h2" using a2 h1 by simp
  have "g ''pd'' = Some pd" using s(1) by (rule global_name_bound) (simp add: builtins_def)
  then have F: "constructs_fresh L F" using s(2) fresh unfolding fresh_frames_def h1 by blast
  have c5: "prefix h4 h5" using s(5) callee_getattr[OF s(3)] by (rule ca)
  have c6: "prefix h5 h6" using s(6) callee_provided[OF s(2)] by (rule ca) simp
  have c9: "prefix h8 h9" using s(9) callee_provided[OF s(8)] by (rule ca) simp
  have c13: "prefix h12 h13" using s(13) callee_provided[OF s(12)] by (rule ca) simp
  have c15: "prefix h14 h'" using s(15) callee_provided[OF s(14)] by (rule ca) simp
  have p5: "prefix h h5"
    using p2 global_name_heap[OF s(3)] global_name_heap[OF s(4)] c5 by auto
  have df: "\<And>a. df = VRef a \<Longrightarrow> length h \<le> a"
    using F s(6) p5 unfolding constructs_fresh_def by (metis order_trans prefix_length_le)
  have p9: "prefix h h9"
    using p5 c6 a7 a8 c9 by (meson prefix_order.trans)
  have p10: "prefix h h10" using L s(10) p9 df by (rule store_item_prefix)
  show ?case
    using p10 global_name_heap[OF s(11)] a12 c13 a14 c15
    by (metis prefix_order.trans)
qed

lemma StockExplorer_load_symbol_frame:
  assumes L: "frame_respecting L g"
    and fresh: "fresh_frames L g h"
    and run: "StockExplorer_load_symbol L g self h = Inr (r, h')"
  shows "prefix h h'"
  using run unfolding StockExplorer_load_symbol_def
proof (elim bind_Inr, goal_cases)
  case (1 pd h1 F h2 ga h3 st h4 sym h5 data h6 df h7 date h8 astype h9 conv h10 u h11 hv h12
      C h13 var h14 curve h15 opts h16)
  note s = 1
  note at = attr_prefix[OF L]
  note ca = call_prefix[OF L]
  have h1: "h1 = h" using s(1) by (rule global_name_heap)
  have a2: "prefix h1 h2" using s(2) by (rule at) (simp add: loader_attributes_def)
  have a5: "prefix h4 h5" using s(5) by (rule at) (simp add: loader_attributes_def)
  have a8: "prefix h7 h8" using s(8) by (rule at) (simp add: loader_attributes_def)
  have a9: "prefix h8 h9" using s(9) by (rule at) (simp add: loader_attributes_def)
  have a13: "prefix h12 h13" using s(13) by (rule at) (simp add: loader_attributes_def)
  have a14: "prefix h13 h14" using s(14) by (rule at) (simp add: loader_attributes_def)
  have a16: "prefix h15 h16" using s(16) by (rule at) (simp add: loader_attributes_def)
  have p2: "prefix h h2" using a2 h1 by simp
  have "g ''pd'' = Some pd" using s(1) by (rule global_name_bound) (simp add: builtins_def)
  then have F: "constructs_fresh L F" using s(2) fresh unfolding fresh_frames_def h1 by blast
  have c6: "prefix h5 h6" using s(6) callee_getattr[OF s(3)] by (rule ca)
  have c7: "prefix h6 h7" using s(7) callee_provided[OF s(2)] by (rule ca) simp
  have c10: "prefix h9 h10" using s(10) callee_provided[OF s(9)] by (rule ca) simp
  have c15: "prefix h14 h15" using s(15) callee_provided[OF s(13)] by (rule ca) simp
  have c17: "prefix h16 h'" using s(17) callee_provided[OF s(16)] by (rule ca) simp
  have p6: "prefix h h6"
    using p2 global_name_heap[OF s(3)] global_name_heap[OF s(4)] a5 c6
    by (metis prefix_order.trans)
  have df: "\<And>a. df = VRef a \<Longrightarrow> length h \<le> a"
    using F s(7) p6 unfolding constructs_fresh_def by (metis order_trans prefix_length_le)
  have p10: "prefix h h10"
    using p6 c7 a8 a9 c10 by (meson prefix_order.trans)
  have p11: "prefix h h11" using L s(11) p10 df by (rule store_item_prefix)
  have p13: "prefix h h13"
    using p11 global_name_heap[OF s(12)] a13 by (metis prefix_order.trans)
  show ?case
    using p13 a14 c15 a16 c17 by (meson prefix_order.trans)
qed

text \<open>The reference model respects the frame, whatever the globals.\<close>

lemma ref_load_attr_prefix: "ref_load_attr v n h = Inr (x, k) \<Longrightarrow> prefix h k"
  by (auto simp: ref_load_attr_def return_def raise_def alloc_def
      split: option.splits obj.splits val.splits if_splits)

lemma ref_call_prefix: "ref_call conv f ps ks h = Inr (x, k) \<Longrightarrow> prefix h k"
  by (auto simp: ref_call_def ref_function_def ref_method_def return_def raise_def alloc_def
      dest: ref_load_attr_prefix
      split: option.splits obj.splits val.splits if_splits list.splits)

lemma ref_lib_frame: "frame_respecting (ref_lib conv) g"
  unfolding frame_respecting_def allocates_only_def writes_receiver_only_def
  apply (intro conjI allI impI)
     apply (simp add: ref_load_attr_prefix)
    apply (simp add: ref_call_prefix)
   apply (auto simp: ref_store_item_def raise_def split: val.splits option.splits obj.splits if_splits)
  done

lemma ref_DataFrame_fresh: "constructs_fresh (ref_lib conv) (VFun ''pandas.DataFrame'')"
  by (auto simp: constructs_fresh_def ref_call_def ref_function_def alloc_def raise_def
      split: list.splits option.splits obj.splits)

lemma ref_fresh_frames: "sample_env g h \<Longrightarrow> fresh_frames (ref_lib conv) g h"
  unfolding fresh_frames_def
proof (intro allI impI)
  fix pd F k
  assume env: "sample_env g h" and pd: "g ''pd'' = Some pd"
    and at: "attr (ref_lib conv) pd ''DataFrame'' h = Inr (F, k)"
  from env pd obtain as where "deref pd h = Some (Module as)"
    and "map_of as ''DataFrame'' = Some (VFun ''pandas.DataFrame'')"
    by (auto simp: sample_env_def provides_def split: option.splits obj.splits)
  with at have "F = VFun ''pandas.DataFrame''" by simp
  then show "constructs_fresh (ref_lib conv) F" by (simp add: ref_DataFrame_fresh)
qed

text \<open>The state after a run of the loader still provides what the loaders need.\<close>

lemma sample_env_prefix: "sample_env g h \<Longrightarrow> prefix h k \<Longrightarrow> sample_env g k"
  by (auto simp: sample_env_def provides_def prefix_def split: option.splits obj.splits)

lemma sample_data_prefix:
  "sample_data g h symbol = Some cols \<Longrightarrow> prefix h k \<Longrightarrow> sample_data g k symbol = Some cols"
  by (auto simp: sample_data_def prefix_def split: option.splits obj.splits)

section \<open>Exceptions\<close>

text \<open>No statement of the notebook handles, suppresses or raises an exception.\<close>

fun handles_exceptions :: "stmt \<Rightarrow> bool" where
  "handles_exceptions (Try b h e f) = True"
| "handles_exceptions (With e b) = True"
| "handles_exceptions (Raise e) = True"
| "handles_exceptions (If c a b) = (list_ex handles_exceptions a \<or> list_ex handles_exceptions b)"
| "handles_exceptions (FunctionDef f as ds body) = list_ex handles_exceptions body"
| "handles_exceptions (ClassDef c bs body) = list_ex handles_exceptions body"
| "handles_exceptions s = False"

lemma notebook_handles_nothing: "\<not> list_ex handles_exceptions notebook"
  by (simp add: nb_defs)

text \<open>
  Where an exception of a loader comes from: a name that is not bound, or an operation
  of the library that raised this very exception.
\<close>

definition raised_by_library :: "'o lib \<Rightarrow> exn \<Rightarrow> bool" where
  "raised_by_library L e =
     ((\<exists>v n h. load_attr L v n h = Inl e) \<or>
      (\<exists>f ps ks h. call L f ps ks h = Inl e) \<or>
      (\<exists>ob k v h. store_item L ob k v h = Inl e))"

definition name_error :: "exn \<Rightarrow> bool" where
  "name_error e = (\<exists>n. e = Raised ''NameError'' n)"

lemma global_name_Inl: "global_name g n h = Inl e \<Longrightarrow> name_error e"
  by (auto simp: global_name_def name_error_def return_def raise_def split: option.splits)

lemma attr_Inl: "attr L v a h = Inl e \<Longrightarrow> raised_by_library L e"
  by (auto simp: attr_def raised_by_library_def return_def split: val.splits option.splits)

lemma call_Inl: "call L f ps ks h = Inl e \<Longrightarrow> raised_by_library L e"
  by (auto simp: raised_by_library_def)

lemma store_item_Inl: "store_item L ob k v h = Inl e \<Longrightarrow> raised_by_library L e"
  by (auto simp: raised_by_library_def)

lemma load_symbol_Inl:
  "load_symbol L g s v h = Inl e \<Longrightarrow> name_error e \<or> raised_by_library L e"
  unfolding load_symbol_def
  by (elim bind_Inl) (auto dest: global_name_Inl attr_Inl call_Inl store_item_Inl)

lemma StockExplorer_load_symbol_Inl:
  "StockExplorer_load_symbol L g self h = Inl e \<Longrightarrow> name_error e \<or> raised_by_library L e"
  unfolding StockExplorer_load_symbol_def
  by (elim bind_Inl) (auto dest: global_name_Inl attr_Inl call_Inl store_item_Inl)

lemma load_symbol_cb_Inl:
  "load_symbol_cb L g s v h = Inl e \<Longrightarrow> name_error e \<or> raised_by_library L e"
  unfolding load_symbol_cb_def
  by (elim bind_Inl) (auto dest: global_name_Inl call_Inl load_symbol_Inl split: if_splits)

lemma getattr_failure:
  assumes "g ''pd'' = Some pd" and "attr L pd ''DataFrame'' h = Inr (F, h1)"
    and "g ''getattr'' = None" and "g ''stocks'' = Some st"
    and "call L (VFun ''getattr'') [st, s] [] h1 = Inl e"
  shows "load_symbol L g s v h = Inl e"
  using assms by (simp add: load_symbol_def global_name_def builtins_def bind_def return_def)

lemma getattr_failure_method:
  assumes "g ''pd'' = Some pd" and "attr L pd ''DataFrame'' h = Inr (F, h1)"
    and "g ''getattr'' = None" and "g ''stocks'' = Some st"
    and "call L (VFun ''getattr'') [st, s] [] h1 = Inl e"
    and "map_of ps ''symbol'' = Some s"
  shows "StockExplorer_load_symbol L g (VInst ps) h = Inl e"
  using assms
  by (simp add: StockExplorer_load_symbol_def global_name_def builtins_def bind_def return_def
      attr_VInst)

text \<open>
  Claim C4. No code in the notebook catches, retries or transforms an exception: no
  statement of any cell is a \<^verbatim>\<open>try\<close>, a \<^verbatim>\<open>with\<close> or a \<^verbatim>\<open>raise\<close>, so no handler of the notebook
  can run. When the library call \<^verbatim>\<open>getattr(stocks, symbol)\<close> fails (the symbol is not an
  attribute of the sample-data module), the exception it raised is, unchanged, the result
  of \<^verbatim>\<open>load_symbol\<close>, of \<^verbatim>\<open>load_symbol_cb\<close> and of the method \<^verbatim>\<open>StockExplorer.load_symbol\<close>. In
  general, every exception that comes out of one of the three loaders is the very
  exception that an operation of the library raised, or Python's \<^verbatim>\<open>NameError\<close> for a global
  name that is not bound.
\<close>

theorem C4_exceptions_propagate:
  "\<not> list_ex handles_exceptions notebook
   \<and> (g ''pd'' = Some pd \<and> attr L pd ''DataFrame'' h = Inr (F, h1) \<and> g ''getattr'' = None \<and>
      g ''stocks'' = Some st \<and> call L (VFun ''getattr'') [st, s] [] h1 = Inl e
      \<longrightarrow> load_symbol L g s v h = Inl e
        \<and> (g ''load_symbol'' = Some (VFun ''__main__.load_symbol'') \<longrightarrow>
             load_symbol_cb L g s v h = Inl e)
        \<and> (map_of ps ''symbol'' = Some s \<longrightarrow> StockExplorer_load_symbol L g (VInst ps) h = Inl e))
   \<and> (load_symbol L g s v h = Inl e' \<longrightarrow> name_error e' \<or> raised_by_library L e')
   \<and> (load_symbol_cb L g s v h = Inl e' \<longrightarrow> name_error e' \<or> raised_by_library L e')
   \<and> (StockExplorer_load_symbol L g self h = Inl e' \<longrightarrow> name_error e' \<or> raised_by_library L e')"
  using getattr_failure[of g pd L h F h1 st s e v]
    getattr_failure_method[of g pd L h F h1 st s e ps]
    callback_is_function[of g L s v]
  by (auto simp: notebook_handles_nothing
      dest: load_symbol_Inl load_symbol_cb_Inl StockExplorer_load_symbol_Inl)

theorem C4_witness:
  "load_symbol (ref_lib conv0) globals0 (VStr ''TSLA'') (VStr ''adj_close'') heap0 =
     Inl (Raised ''AttributeError'' ''TSLA'')
   \<and> load_symbol_cb (ref_lib conv0) globals0 (VStr ''TSLA'') (VStr ''adj_close'') heap0 =
     Inl (Raised ''AttributeError'' ''TSLA'')
   \<and> StockExplorer_load_symbol (ref_lib conv0) globals0
       (VInst [(''symbol'', VStr ''TSLA''), (''variable'', VStr ''adj_close'')]) heap0 =
     Inl (Raised ''AttributeError'' ''TSLA'')
   \<and> call (ref_lib conv0) (VFun ''getattr'') [VRef 2, VStr ''TSLA''] [] heap0 =
     Inl (Raised ''AttributeError'' ''TSLA'')
   \<and> (name_error (Raised ''AttributeError'' ''TSLA'') \<or>
      raised_by_library (ref_lib conv0) (Raised ''AttributeError'' ''TSLA''))"
proof -
  have 1: "globals0 ''pd'' = Some (VRef 0)" "globals0 ''getattr'' = None"
    "globals0 ''stocks'' = Some (VRef 2)"
    "globals0 ''load_symbol'' = Some (VFun ''__main__.load_symbol'')"
    by (simp_all add: globals0_def)
  have 2: "attr (ref_lib conv0) (VRef 0) ''DataFrame'' heap0 = Inr (VFun ''pandas.DataFrame'', heap0)"
    by simp
  have 3: "call (ref_lib conv0) (VFun ''getattr'') [VRef 2, VStr ''TSLA''] [] heap0 =
      Inl (Raised ''AttributeError'' ''TSLA'')"
    by (simp add: ref_load_attr_def heap0_def raise_def)
  have 4: "map_of [(''symbol'', VStr ''TSLA''), (''variable'', VStr ''adj_close'')] ''symbol'' =
      Some (VStr ''TSLA'')"
    by simp
  show ?thesis
    using C4_exceptions_propagate[where g = globals0 and pd = "VRef 0" and L = "ref_lib conv0"
        and h = heap0 and F = "VFun ''pandas.DataFrame''" and ?h1.0 = heap0 and st = "VRef 2"
        and s = "VStr ''TSLA''" and e = "Raised ''AttributeError'' ''TSLA''"
        and v = "VStr ''adj_close''"
        and ps = "[(''symbol'', VStr ''TSLA''), (''variable'', VStr ''adj_close'')]"
        and e' = "Raised ''AttributeError'' ''TSLA''"]
      1 2 3 4
    by simp
qed

section \<open>Where the plotted data come from\<close>

text \<open>The numeric literals written in the notebook, in the order of the file.\<close>

fun numbers :: "expr \<Rightarrow> val list" where
  "numbers (Num i) = [VInt i]"
| "numbers (FloatLit s) = [VFloat s]"
| "numbers (Attribute e a) = numbers e"
| "numbers (Call f as) = numbers f @ concat (map numbers as)"
| "numbers (Keyword k e) = numbers e"
| "numbers (ListE es) = concat (map numbers es)"
| "numbers (TupleE es) = concat (map numbers es)"
| "numbers (Subscript e i) = numbers e @ numbers i"
| "numbers (Mult a b) = numbers a @ numbers b"
| "numbers e = []"

definition numeric_literals :: "stmt list \<Rightarrow> val list" where
  "numeric_literals ss = concat (map numbers (concat (map stmt_exprs ss)))"

lemma numeric_literals_notebook:
  "numeric_literals notebook =
     [VInt 10, VInt 1, VInt 365, VInt 600, VFloat ''0.1'', VInt 10, VInt 1, VInt 365, VInt 500,
      VInt 600]"
  by (simp add: numeric_literals_def nb_defs)

text \<open>Of the notebook's globals, the loader reads these four and no other.\<close>

lemma load_symbol_globals_read:
  assumes "g1 ''pd'' = g2 ''pd''" and "g1 ''getattr'' = g2 ''getattr''"
    and "g1 ''stocks'' = g2 ''stocks''" and "g1 ''hv'' = g2 ''hv''"
  shows "load_symbol L g1 s v = load_symbol L g2 s v"
  using assms by (simp add: load_symbol_def global_name_def)

lemma map_of_update_date:
  "map_of (AList.update ''date'' dc' cols) = (map_of cols)(''date'' \<mapsto> dc')"
  by (simp add: update_conv')

lemma keys_update_date:
  "map_of cols ''date'' = Some dc \<Longrightarrow> map fst (AList.update ''date'' dc' cols) = map fst cols"
  by (simp add: update_keys) (metis domI dom_map_of_conv_image_fst)

text \<open>
  Claim C5. The notebook defines no stock-price data of its own. In the reference model of
  the libraries, for a symbol that the sample-data module \<^verbatim>\<open>stocks\<close> has and a variable that
  is one of its columns, each of the three loaders returns a curve over \<^verbatim>\<open>('date', 'Date')\<close>
  and the variable, with the option \<^verbatim>\<open>framewise=True\<close>, whose data are the columns found
  under \<^verbatim>\<open>getattr(stocks, symbol)\<close>, in their order, with one change: the column \<^verbatim>\<open>date\<close> is
  its conversion to \<^verbatim>\<open>datetime64[ns]\<close>. The only numbers written in the notebook are the
  defaults, bounds and sizes of the widgets and plots (10, 1, 365, 600, 0.1, 500).
\<close>

theorem C5_data_from_sample_module:
  assumes env: "sample_env g h"
    and data: "sample_data g h symbol = Some cols"
    and date: "map_of cols ''date'' = Some dc"
    and conv: "conv dc = Some dc'"
    and var: "map_of cols variable = Some vc"
    and cb: "g ''load_symbol'' = Some (VFun ''__main__.load_symbol'')"
    and self: "map_of ps ''symbol'' = Some (VStr symbol)" "map_of ps ''variable'' = Some (VStr variable)"
  shows "\<exists>c h' shown.
      load_symbol (ref_lib conv) g (VStr symbol) (VStr variable) h = Inr (c, h')
    \<and> load_symbol_cb (ref_lib conv) g (VStr symbol) (VStr variable) h = Inr (c, h')
    \<and> StockExplorer_load_symbol (ref_lib conv) g (VInst ps) h = Inr (c, h')
    \<and> curve_content h' c =
        Some (shown, VTuple [VStr ''date'', VStr ''Date''], VStr variable, [(''framewise'', VBool True)])
    \<and> map_of shown = (map_of cols)(''date'' \<mapsto> dc')
    \<and> map fst shown = map fst cols
    \<and> numeric_literals notebook =
        [VInt 10, VInt 1, VInt 365, VInt 600, VFloat ''0.1'', VInt 10, VInt 1, VInt 365, VInt 500,
         VInt 600]"
proof -
  let ?c = "VRef (length h + 4)"
  let ?shown = "AList.update ''date'' dc' cols"
  let ?h' = "h @ [DataFrame ?shown, Series dc, Series dc',
      Curve (VRef (length h)) (VTuple [VStr ''date'', VStr ''Date'']) (VStr variable) [],
      Curve (VRef (length h)) (VTuple [VStr ''date'', VStr ''Date'']) (VStr variable)
        [(''framewise'', VBool True)]]"
  have 1: "load_symbol (ref_lib conv) g (VStr symbol) (VStr variable) h = Inr (?c, ?h')"
    using env data date conv var by (rule load_symbol_ref)
  have 2: "load_symbol_cb (ref_lib conv) g (VStr symbol) (VStr variable) h = Inr (?c, ?h')"
    using 1 by (simp add: callback_is_function[of g, OF cb])
  have 3: "StockExplorer_load_symbol (ref_lib conv) g (VInst ps) h = Inr (?c, ?h')"
    using 1 by (simp add: method_is_function[of ps, OF self])
  have 4: "curve_content ?h' ?c =
      Some (?shown, VTuple [VStr ''date'', VStr ''Date''], VStr variable, [(''framewise'', VBool True)])"
    by (rule curve_content_load_symbol_ref)
  have 5: "map_of ?shown = (map_of cols)(''date'' \<mapsto> dc')"
    by (rule map_of_update_date)
  have 6: "map fst ?shown = map fst cols"
    using date by (rule keys_update_date)
  show ?thesis
    by (intro exI[of _ ?c] exI[of _ ?h'] exI[of _ ?shown] conjI)
      (fact 1 2 3 4 5 6 numeric_literals_notebook)+
qed

theorem C5_witness:
  "load_symbol (ref_lib conv0) globals0 (VStr ''AAPL'') (VStr ''adj_close'') heap0 =
     Inr (VRef 12, heap0_loaded)
   \<and> curve_content heap0_loaded (VRef 12) =
     Some (AList.update ''date'' dates0_converted (columns0 130),
           VTuple [VStr ''date'', VStr ''Date''], VStr ''adj_close'', [(''framewise'', VBool True)])
   \<and> (\<exists>c h' shown.
        load_symbol_cb (ref_lib conv0) globals0 (VStr ''AAPL'') (VStr ''adj_close'') heap0 = Inr (c, h')
      \<and> StockExplorer_load_symbol (ref_lib conv0) globals0 explorer0 heap0 = Inr (c, h')
      \<and> curve_content h' c =
          Some (shown, VTuple [VStr ''date'', VStr ''Date''], VStr ''adj_close'',
                [(''framewise'', VBool True)])
      \<and> map_of shown ''adj_close'' = Some [Number 133, Number 132]
      \<and> map_of shown ''date'' = Some dates0_converted)"
proof -
  have cols: "map_of (columns0 130) ''date'' = Some [Text ''2000-03-01'', Text ''2000-03-02'']"
    "map_of (columns0 130) ''adj_close'' = Some [Number 133, Number 132]"
    by (simp_all add: columns0_def)
  have g: "globals0 ''load_symbol'' = Some (VFun ''__main__.load_symbol'')"
    by (simp add: globals0_def)
  have ps: "map_of params0 ''symbol'' = Some (VStr ''AAPL'')"
    "map_of params0 ''variable'' = Some (VStr ''adj_close'')"
    by (simp_all add: params0_def)
  from C5_data_from_sample_module[of globals0 heap0 "''AAPL''" "columns0 130"
      "[Text ''2000-03-01'', Text ''2000-03-02'']" conv0 dates0_converted "''adj_close''"
      "[Number 133, Number 132]" params0,
      OF sample_env0 sample_data0 cols(1) conv0_dates cols(2) g ps]
  obtain c h' shown where
    w: "load_symbol (ref_lib conv0) globals0 (VStr ''AAPL'') (VStr ''adj_close'') heap0 = Inr (c, h')"
      "load_symbol_cb (ref_lib conv0) globals0 (VStr ''AAPL'') (VStr ''adj_close'') heap0 = Inr (c, h')"
      "StockExplorer_load_symbol (ref_lib conv0) globals0 (VInst params0) heap0 = Inr (c, h')"
      "curve_content h' c =
        Some (shown, VTuple [VStr ''date'', VStr ''Date''], VStr ''adj_close'',
              [(''framewise'', VBool True)])"
      "map_of shown = (map_of (columns0 130))(''date'' \<mapsto> dates0_converted)"
    by blast
  from w(1) have ch: "c = VRef 12" "h' = heap0_loaded" by (simp_all add: load_symbol0)
  from w(5) cols have sh: "map_of shown ''adj_close'' = Some [Number 133, Number 132]"
    "map_of shown ''date'' = Some dates0_converted"
    by simp_all
  have cc: "curve_content heap0_loaded (VRef 12) =
     Some (AList.update ''date'' dates0_converted (columns0 130),
           VTuple [VStr ''date'', VStr ''Date''], VStr ''adj_close'', [(''framewise'', VBool True)])"
    by (simp add: curve_content_def heap0_loaded_def nth_append)
  show ?thesis
    using w(2,3,4) sh cc load_symbol0 unfolding explorer0_def by blast
qed

theorem C8_witness:
  "load_symbol_cb (ref_lib conv0) globals0 (VStr ''AAPL'') (VStr ''adj_close'') heap0 =
     Inr (VRef 12, heap0_loaded)
   \<and> StockExplorer_load_symbol (ref_lib conv0) globals0 explorer0 heap0 = Inr (VRef 12, heap0_loaded)
   \<and> load_symbol (ref_lib conv0) globals0 (VStr ''AAPL'') (VStr ''adj_close'') heap0 =
     Inr (VRef 12, heap0_loaded)"
proof -
  have g: "globals0 ''load_symbol'' = Some (VFun ''__main__.load_symbol'')"
    by (simp add: globals0_def)
  have ps: "map_of params0 ''symbol'' = Some (VStr ''AAPL'')"
    "map_of params0 ''variable'' = Some (VStr ''adj_close'')"
    by (simp_all add: params0_def)
  show ?thesis
    using C8_dashboards_agree[of globals0 params0 "VStr ''AAPL''" "VStr ''adj_close''"
        "ref_lib conv0" heap0, OF g ps]
    by (simp add: load_symbol0 explorer0_def)
qed


section \<open>The scope of the name stocks\<close>



lemma exec_locals:
  "exec L sc s gl h = Inr ((out, g', l'), h') \<Longrightarrow> snd gl x = Some y \<Longrightarrow> \<exists>z. l' x = Some z"
  "exec_block L sc ss gl h = Inr ((out, g', l'), h') \<Longrightarrow> snd gl x = Some y \<Longrightarrow> \<exists>z. l' x = Some z"
  by (induction L sc s gl h and L sc ss gl h arbitrary: out g' l' h' y and out g' l' h' y
      rule: exec_exec_block.induct)
    (fastforce simp: bind_def return_def raise_def split: sum.splits if_splits outcome.splits)+

lemma view_globals:
  assumes "view L g self h = Inr ((out, g', l'), h')"
  shows "g' = g"
proof -
  have sub: "set (concat (map assigned view_body)) \<subseteq> set (method_locals view_body)"
    by (simp add: view_locals) (simp add: view_body_def)
  show ?thesis
    using exec_globals(2)[OF assms[unfolded view_def] sub] by simp
qed

lemma view_binds_local:
  assumes "view L g self h = Inr ((out, g', l'), h')"
  shows "\<exists>dm. l' ''stocks'' = Some dm"
proof -
  obtain s ss where body: "view_body = s # ss"
    and s: "s = Assign (Name ''stocks'')
       (Call (Attribute (Name ''hv'') ''DynamicMap'') [Attribute (Name ''self'') ''load_symbol''])"
    by (simp add: view_body_def)
  from assms have "bind (exec L (method_locals view_body) s (g, [''self'' \<mapsto> self]))
      (\<lambda>(out, g', l'). case out of
         Normal \<Rightarrow> exec_block L (method_locals view_body) ss (g', l')
       | Returned v \<Rightarrow> return (Returned v, g', l')) h = Inr ((out, g', l'), h')"
    unfolding view_def body by simp
  then obtain x k where
    1: "exec L (method_locals view_body) s (g, [''self'' \<mapsto> self]) h = Inr (x, k)"
    and 2: "(case x of (out, g', l') \<Rightarrow> (case out of
         Normal \<Rightarrow> exec_block L (method_locals view_body) ss (g', l')
       | Returned v \<Rightarrow> return (Returned v, g', l'))) k = Inr ((out, g', l'), h')"
    by (rule bind_Inr)
  from 1 obtain v where x: "x = (Normal, g, [''self'' \<mapsto> self, ''stocks'' \<mapsto> v])"
    unfolding s view_locals
    by (subst (asm) exec.simps) (auto elim!: bind_Inr simp: return_def)
  from 2 x have
    "exec_block L (method_locals view_body) ss (g, [''self'' \<mapsto> self, ''stocks'' \<mapsto> v]) k =
       Inr ((out, g', l'), h')"
    by simp
  from exec_locals(2)[OF this, of "''stocks''" v] show ?thesis by simp
qed

lemma view_scopes:
  "''stocks'' \<in> set (method_locals view_body)"
  "concat (map global_decls view_body) = []"
  "''stocks'' \<notin> set (method_locals StockExplorer_load_symbol_body)"
  "''stocks'' \<notin> set load_symbol_locals"
  by (simp_all add: view_locals load_symbol_locals)
    (simp_all add: view_body_def method_locals_def local_names_def StockExplorer_load_symbol_body_def)

text \<open>
  Claim C9. Calling \<^verbatim>\<open>AdvancedStockExplorer.view\<close> does not rebind the module-level name
  \<^verbatim>\<open>stocks\<close>. With any library, a call of \<^verbatim>\<open>view\<close> that returns leaves all the globals as they
  were, the global \<^verbatim>\<open>stocks\<close> among them: the body has no \<^verbatim>\<open>global\<close> statement, so the name
  \<^verbatim>\<open>stocks\<close> it assigns is local to \<^verbatim>\<open>view\<close>, and it is the locals of the call that hold the
  DynamicMap under this name afterwards. In the inherited method \<^verbatim>\<open>load_symbol\<close> the name
  \<^verbatim>\<open>stocks\<close> is not local, so \<^verbatim>\<open>getattr(stocks, self.symbol)\<close> reads the module's global, and the
  method computes the same before and after the call.
\<close>

theorem C9_view_keeps_global_stocks:
  assumes "view L g self h = Inr ((out, g', l'), h')"
  shows "g' = g
    \<and> g' ''stocks'' = g ''stocks''
    \<and> (\<exists>dm. l' ''stocks'' = Some dm)
    \<and> ''stocks'' \<in> set (method_locals view_body)
    \<and> concat (map global_decls view_body) = []
    \<and> ''stocks'' \<notin> set (method_locals StockExplorer_load_symbol_body)
    \<and> StockExplorer_load_symbol L' g' self' k = StockExplorer_load_symbol L' g self' k"
  using view_globals[OF assms] view_binds_local[OF assms] view_scopes by simp

theorem C9_witness:
  "\<exists>r l h' c k.
       view (ref_lib conv0) globals0 explorer0 heap0 = Inr ((Returned r, globals0, l), h')
     \<and> l ''stocks'' = Some (VRef 8)
     \<and> h' ! 8 = Opaque ''holoviews.DynamicMap'' [VMethod explorer0 ''load_symbol''] []
     \<and> globals0 ''stocks'' = Some (VRef 2)
     \<and> StockExplorer_load_symbol (ref_lib conv0) globals0 explorer0 h' = Inr (c, k)
     \<and> curve_content k c =
         Some (AList.update ''date'' dates0_converted (columns0 130),
               VTuple [VStr ''date'', VStr ''Date''], VStr ''adj_close'',
               [(''framewise'', VBool True)])"
proof -
  from view0 obtain l h' where
    run: "view (ref_lib conv0) globals0 explorer0 heap0 = Inr ((Returned (VRef 15), globals0, l), h')"
    and l: "l ''stocks'' = Some (VRef 8)"
    and h': "h' ! 8 = Opaque ''holoviews.DynamicMap'' [VMethod explorer0 ''load_symbol''] []"
    and pre: "prefix heap0 h'"
    by (auto simp: nth_append)
  have g: "globals0 ''stocks'' = Some (VRef 2)" by (simp add: globals0_def)
  have cols: "map_of (columns0 130) ''date'' = Some [Text ''2000-03-01'', Text ''2000-03-02'']"
    "map_of (columns0 130) ''adj_close'' = Some [Number 133, Number 132]"
    by (simp_all add: columns0_def)
  have ps: "map_of params0 ''symbol'' = Some (VStr ''AAPL'')"
    "map_of params0 ''variable'' = Some (VStr ''adj_close'')"
    by (simp_all add: params0_def)
  note keeps = C9_view_keeps_global_stocks[OF run, where L' = "ref_lib conv0" and self' = explorer0
      and k = h']
  have same: "StockExplorer_load_symbol (ref_lib conv0) globals0 explorer0 h' =
      load_symbol (ref_lib conv0) globals0 (VStr ''AAPL'') (VStr ''adj_close'') h'"
    using keeps by (simp add: explorer0_def method_is_function[of params0, OF ps])
  note loaded = load_symbol_ref[where conv = conv0, OF sample_env_prefix[OF sample_env0 pre]
      sample_data_prefix[OF sample_data0 pre] cols(1) conv0_dates cols(2)]
  show ?thesis
    by (intro exI conjI, rule run, rule l, rule h', rule g, subst same, rule loaded,
        rule curve_content_load_symbol_ref)
qed

section \<open>Purity of the loader\<close>

lemma load_symbol_body_local:
  "set (concat (map assigned load_symbol_body)) \<subseteq> set load_symbol_locals"
  "set (concat (map assigned StockExplorer_load_symbol_body))
     \<subseteq> set (method_locals StockExplorer_load_symbol_body)"
  by (simp_all add: load_symbol_locals method_locals_def local_names_def)
    (simp_all add: load_symbol_body_def StockExplorer_load_symbol_body_def)

lemma load_symbol_deterministic_ref:
  assumes "sample_env ga ha" and "sample_env gb hb"
    and "sample_data ga ha symbol = Some cols" and "sample_data gb hb symbol = Some cols"
    and "map_of cols ''date'' = Some dc" and "conv dc = Some dc'"
    and "map_of cols variable = Some vc"
  shows "\<exists>c1 k1 c2 k2 shown.
      load_symbol (ref_lib conv) ga (VStr symbol) (VStr variable) ha = Inr (c1, k1)
    \<and> load_symbol (ref_lib conv) gb (VStr symbol) (VStr variable) hb = Inr (c2, k2)
    \<and> curve_content k1 c1 = Some shown
    \<and> curve_content k2 c2 = Some shown"
proof -
  note a = load_symbol_ref[where conv=conv, OF assms(1,3,5,6,7)]
  note b = load_symbol_ref[where conv=conv, OF assms(2,4,5,6,7)]
  show ?thesis
    by (intro exI conjI, rule a, rule b, rule curve_content_load_symbol_ref,
        rule curve_content_load_symbol_ref)
qed

text \<open>
  Claim C10. \<^verbatim>\<open>load_symbol\<close> is free of side effects on what existed before the call, and
  deterministic. With a library in which the attribute loads and the calls that the
  loader makes only allocate, the assignment of the item \<^verbatim>\<open>'date'\<close> writes its receiver only,
  and \<^verbatim>\<open>pd.DataFrame\<close> returns a new object, a call of the loader (the function or the method) that returns leaves every
  object that existed before it unchanged, the sample data of \<^verbatim>\<open>stocks\<close> among them: the one
  object it writes is the frame it constructed. Running the body leaves the globals
  unchanged. In the reference model of the libraries, two calls with the same symbol and
  variable, in any two states that hold the same sample data, return curves that show the
  same.
\<close>

theorem C10_loader_is_pure:
  assumes L: "frame_respecting L g"
    and fresh: "fresh_frames L g h"
  shows "(load_symbol L g s v h = Inr (r, h') \<longrightarrow> prefix h h')
    \<and> (StockExplorer_load_symbol L g self h = Inr (r, h') \<longrightarrow> prefix h h')
    \<and> (exec_block L load_symbol_locals load_symbol_body (g, l) h = Inr ((out, g', l'), k) \<longrightarrow> g' = g)
    \<and> (exec_block L (method_locals StockExplorer_load_symbol_body) StockExplorer_load_symbol_body
          (g, l) h = Inr ((out, g', l'), k) \<longrightarrow> g' = g)
    \<and> (sample_env ga ha \<and> sample_env gb hb \<and>
        sample_data ga ha symbol = Some cols \<and> sample_data gb hb symbol = Some cols \<and>
        map_of cols ''date'' = Some dc \<and> conv dc = Some dc' \<and> map_of cols variable = Some vc
        \<longrightarrow> (\<exists>c1 k1 c2 k2 shown.
              load_symbol (ref_lib conv) ga (VStr symbol) (VStr variable) ha = Inr (c1, k1)
            \<and> load_symbol (ref_lib conv) gb (VStr symbol) (VStr variable) hb = Inr (c2, k2)
            \<and> curve_content k1 c1 = Some shown
            \<and> curve_content k2 c2 = Some shown))"
proof (intro conjI impI)
  assume "load_symbol L g s v h = Inr (r, h')"
  with L fresh show "prefix h h'" by (rule load_symbol_frame)
next
  assume "StockExplorer_load_symbol L g self h = Inr (r, h')"
  with L fresh show "prefix h h'" by (rule StockExplorer_load_symbol_frame)
next
  assume "exec_block L load_symbol_locals load_symbol_body (g, l) h = Inr ((out, g', l'), k)"
  from exec_globals(2)[OF this load_symbol_body_local(1)] show "g' = g" by simp
next
  assume "exec_block L (method_locals StockExplorer_load_symbol_body) StockExplorer_load_symbol_body
          (g, l) h = Inr ((out, g', l'), k)"
  from exec_globals(2)[OF this load_symbol_body_local(2)] show "g' = g" by simp
next
  assume "sample_env ga ha \<and> sample_env gb hb \<and>
        sample_data ga ha symbol = Some cols \<and> sample_data gb hb symbol = Some cols \<and>
        map_of cols ''date'' = Some dc \<and> conv dc = Some dc' \<and> map_of cols variable = Some vc"
  then show "\<exists>c1 k1 c2 k2 shown.
              load_symbol (ref_lib conv) ga (VStr symbol) (VStr variable) ha = Inr (c1, k1)
            \<and> load_symbol (ref_lib conv) gb (VStr symbol) (VStr variable) hb = Inr (c2, k2)
            \<and> curve_content k1 c1 = Some shown
            \<and> curve_content k2 c2 = Some shown"
    by (elim conjE) (rule load_symbol_deterministic_ref)
qed

lemma prefix_heap0_loaded: "prefix heap0 heap0_loaded"
  by (simp add: heap0_loaded_def)

theorem C10_witness:
  "load_symbol (ref_lib conv0) globals0 (VStr ''AAPL'') (VStr ''adj_close'') heap0 =
     Inr (VRef 12, heap0_loaded)
   \<and> prefix heap0 heap0_loaded
   \<and> (\<exists>c2 k2 shown.
        load_symbol (ref_lib conv0) globals0 (VStr ''AAPL'') (VStr ''adj_close'') heap0_loaded =
          Inr (c2, k2)
      \<and> curve_content heap0_loaded (VRef 12) = Some shown
      \<and> curve_content k2 c2 = Some shown
      \<and> prefix heap0_loaded k2)"
proof -
  have cols: "map_of (columns0 130) ''date'' = Some [Text ''2000-03-01'', Text ''2000-03-02'']"
    "map_of (columns0 130) ''adj_close'' = Some [Number 133, Number 132]"
    by (simp_all add: columns0_def)
  have env1: "sample_env globals0 heap0_loaded"
    using sample_env0 prefix_heap0_loaded by (rule sample_env_prefix)
  have data1: "sample_data globals0 heap0_loaded ''AAPL'' = Some (columns0 130)"
    using sample_data0 prefix_heap0_loaded by (rule sample_data_prefix)
  note pure0 = C10_loader_is_pure[where L = "ref_lib conv0" and g = globals0 and h = heap0
      and s = "VStr ''AAPL''" and v = "VStr ''adj_close''" and r = "VRef 12" and h' = heap0_loaded
      and ga = globals0 and ha = heap0 and gb = globals0 and hb = heap0_loaded
      and symbol = "''AAPL''" and cols = "columns0 130" and conv = conv0
      and dc = "[Text ''2000-03-01'', Text ''2000-03-02'']" and dc' = dates0_converted
      and variable = "''adj_close''" and vc = "[Number 133, Number 132]",
      OF ref_lib_frame ref_fresh_frames[OF sample_env0]]
  have 1: "prefix heap0 heap0_loaded"
    using pure0[THEN conjunct1] load_symbol0 by (rule mp)
  have "\<exists>c1 k1 c2 k2 shown.
      load_symbol (ref_lib conv0) globals0 (VStr ''AAPL'') (VStr ''adj_close'') heap0 = Inr (c1, k1)
    \<and> load_symbol (ref_lib conv0) globals0 (VStr ''AAPL'') (VStr ''adj_close'') heap0_loaded =
        Inr (c2, k2)
    \<and> curve_content k1 c1 = Some shown
    \<and> curve_content k2 c2 = Some shown"
    by (rule mp[OF pure0[THEN conjunct2, THEN conjunct2, THEN conjunct2, THEN conjunct2]])
      (intro conjI sample_env0 env1 sample_data0 data1 cols conv0_dates)
  then obtain c2 k2 shown where
    2: "load_symbol (ref_lib conv0) globals0 (VStr ''AAPL'') (VStr ''adj_close'') heap0_loaded =
          Inr (c2, k2)"
      "curve_content heap0_loaded (VRef 12) = Some shown" "curve_content k2 c2 = Some shown"
    unfolding load_symbol0 by blast
  have 3: "prefix heap0_loaded k2"
    using load_symbol_frame[OF ref_lib_frame ref_fresh_frames[OF env1] 2(1)] .
  show ?thesis using 1 2 3 load_symbol0 by blast
qed

section \<open>Imports and definitions\<close>

text \<open>
  What the notebook imports and what it defines, read from the cells. The root of a
  dotted module name is the package it belongs to.
\<close>

definition module_root :: "string \<Rightarrow> string" where
  "module_root m = takeWhile (\<lambda>c. c \<noteq> CHR ''.'') m"

fun imported_modules :: "stmt \<Rightarrow> string list" where
  "imported_modules (Import m a) = [m]"
| "imported_modules (ImportFrom m ns) = [m]"
| "imported_modules (If c a b) = concat (map imported_modules a) @ concat (map imported_modules b)"
| "imported_modules (FunctionDef f as ds body) = concat (map imported_modules body)"
| "imported_modules (ClassDef c bs body) = concat (map imported_modules body)"
| "imported_modules (Try b h e f) =
     concat (map imported_modules b) @ concat (map imported_modules h) @
     concat (map imported_modules e) @ concat (map imported_modules f)"
| "imported_modules (With e b) = concat (map imported_modules b)"
| "imported_modules s = []"

fun imported_names :: "stmt \<Rightarrow> string list" where
  "imported_names (Import m a) = [a]"
| "imported_names (ImportFrom m ns) = ns"
| "imported_names (If c a b) = concat (map imported_names a) @ concat (map imported_names b)"
| "imported_names (FunctionDef f as ds body) = concat (map imported_names body)"
| "imported_names (ClassDef c bs body) = concat (map imported_names body)"
| "imported_names (Try b h e f) =
     concat (map imported_names b) @ concat (map imported_names h) @
     concat (map imported_names e) @ concat (map imported_names f)"
| "imported_names (With e b) = concat (map imported_names b)"
| "imported_names s = []"

definition import_roots :: "stmt list \<Rightarrow> string list" where
  "import_roots nb = remdups (map module_root (concat (map imported_modules nb)))"

text \<open>The functions, classes and methods that the notebook defines.\<close>

fun defined_names :: "stmt \<Rightarrow> string list" where
  "defined_names (FunctionDef f as ds body) = f # concat (map defined_names body)"
| "defined_names (ClassDef c bs body) = c # concat (map defined_names body)"
| "defined_names (If c a b) = concat (map defined_names a) @ concat (map defined_names b)"
| "defined_names (Try b h e f) =
     concat (map defined_names b) @ concat (map defined_names h) @
     concat (map defined_names e) @ concat (map defined_names f)"
| "defined_names (With e b) = concat (map defined_names b)"
| "defined_names s = []"

text \<open>
  The name an expression starts from: \<^verbatim>\<open>param\<close> for \<^verbatim>\<open>param.depends(...)\<close>. The decorators
  and the base classes of the notebook, by these names.
\<close>

fun root_name :: "expr \<Rightarrow> string list" where
  "root_name (Name n) = [n]"
| "root_name (Attribute e a) = root_name e"
| "root_name (Call f as) = root_name f"
| "root_name (Subscript e i) = root_name e"
| "root_name e = []"

fun decorator_roots :: "stmt \<Rightarrow> string list" where
  "decorator_roots (FunctionDef f as ds body) =
     concat (map root_name ds) @ concat (map decorator_roots body)"
| "decorator_roots (ClassDef c bs body) = concat (map decorator_roots body)"
| "decorator_roots s = []"

fun base_roots :: "stmt \<Rightarrow> string list" where
  "base_roots (ClassDef c bs body) = concat (map root_name bs) @ concat (map base_roots body)"
| "base_roots (FunctionDef f as ds body) = concat (map base_roots body)"
| "base_roots s = []"

text \<open>
  The plain names that are called somewhere in the notebook (\<^verbatim>\<open>rolling(...)\<close>), in the order
  of the file. A call of an attribute (\<^verbatim>\<open>hv.Curve(...)\<close>, \<^verbatim>\<open>df.date.astype(...)\<close>) is a call of
  what the object provides, not of a name.
\<close>

fun called_names :: "expr \<Rightarrow> string list" where
  "called_names (Call (Name n) as) = n # concat (map called_names as)"
| "called_names (Call f as) = called_names f @ concat (map called_names as)"
| "called_names (Attribute e a) = called_names e"
| "called_names (Keyword k e) = called_names e"
| "called_names (ListE es) = concat (map called_names es)"
| "called_names (TupleE es) = concat (map called_names es)"
| "called_names (Subscript e i) = called_names e @ called_names i"
| "called_names (Mult a b) = called_names a @ called_names b"
| "called_names e = []"

definition notebook_calls :: "stmt list \<Rightarrow> string list" where
  "notebook_calls nb = remdups (concat (map called_names (concat (map stmt_exprs nb))))"

lemma imported_modules_notebook:
  "concat (map imported_modules notebook) =
     [''pandas'', ''holoviews'', ''bokeh.sampledata'', ''holoviews.operation.timeseries'',
      ''param'', ''panel'', ''holoviews.operation.datashader'']"
  by (simp add: nb_defs)

lemma import_roots_notebook:
  "import_roots notebook = [''pandas'', ''bokeh'', ''param'', ''panel'', ''holoviews'']"
  by (simp add: import_roots_def imported_modules_notebook module_root_def)

lemma imported_names_notebook:
  "concat (map imported_names notebook) =
     [''pd'', ''hv'', ''stocks'', ''rolling'', ''rolling_outlier_std'', ''param'', ''pn'',
      ''datashade'', ''dynspread'']"
  by (simp add: nb_defs)

lemma defined_names_notebook:
  "concat (map defined_names notebook) =
     [''load_symbol'', ''StockExplorer'', ''load_symbol'', ''load_symbol_cb'',
      ''AdvancedStockExplorer'', ''view'']"
  by (simp add: nb_defs)

lemma decorator_roots_notebook:
  "concat (map decorator_roots notebook) = [''param'', ''pn'', ''param'']"
  by (simp add: nb_defs)

lemma base_roots_notebook:
  "concat (map base_roots notebook) = [''param'', ''StockExplorer'']"
  by (simp add: nb_defs)

lemma notebook_calls_notebook:
  "notebook_calls notebook =
     [''getattr'', ''StockExplorer'', ''load_symbol'', ''rolling'', ''dynspread'', ''datashade'',
      ''rolling_outlier_std'', ''AdvancedStockExplorer'']"
  by (simp add: notebook_calls_def nb_defs)

text \<open>
  Claim C6, as the claim states it, fails: the packages the notebook imports are not the
  three framework families alone, \<^verbatim>\<open>pandas\<close> and \<^verbatim>\<open>bokeh\<close> are imported as well.
\<close>

theorem C6_counterexample:
  "set (import_roots notebook) \<noteq> {''holoviews'', ''panel'', ''param''}"
proof
  assume eq: "set (import_roots notebook) = {''holoviews'', ''panel'', ''param''}"
  have "''pandas'' \<in> set (import_roots notebook)"
    by (simp add: import_roots_notebook)
  then have "''pandas'' \<in> {''holoviews'', ''panel'', ''param''}"
    unfolding eq .
  then show False by simp
qed

text \<open>
  Claim C6, amended. The notebook imports five third-party packages: the three framework
  families (the charting library \<^verbatim>\<open>holoviews\<close>, with its operations \<^verbatim>\<open>rolling\<close>,
  \<^verbatim>\<open>rolling_outlier_std\<close>, \<^verbatim>\<open>datashade\<close> and \<^verbatim>\<open>dynspread\<close>, the dashboarding library \<^verbatim>\<open>panel\<close> and
  the parameter library \<^verbatim>\<open>param\<close>) and, besides them, \<^verbatim>\<open>pandas\<close> and \<^verbatim>\<open>bokeh\<close> (for its module
  \<^verbatim>\<open>sampledata.stocks\<close>). It implements none of their mechanisms: all it defines are the
  loaders \<^verbatim>\<open>load_symbol\<close> and \<^verbatim>\<open>load_symbol_cb\<close> and the classes \<^verbatim>\<open>StockExplorer\<close> (with the
  method \<^verbatim>\<open>load_symbol\<close>) and \<^verbatim>\<open>AdvancedStockExplorer\<close> (with the method \<^verbatim>\<open>view\<close>); every
  decorator starts from an imported name, every base class from an imported name or a
  class of the notebook, and every name that is called is an imported name, the builtin
  \<^verbatim>\<open>getattr\<close>, or one of \<^verbatim>\<open>load_symbol\<close>, \<^verbatim>\<open>StockExplorer\<close> and \<^verbatim>\<open>AdvancedStockExplorer\<close>.
\<close>

theorem C6_imports_and_definitions:
  "import_roots notebook = [''pandas'', ''bokeh'', ''param'', ''panel'', ''holoviews'']
   \<and> {''holoviews'', ''panel'', ''param''} \<subseteq> set (import_roots notebook)
   \<and> concat (map imported_modules notebook) =
       [''pandas'', ''holoviews'', ''bokeh.sampledata'', ''holoviews.operation.timeseries'',
        ''param'', ''panel'', ''holoviews.operation.datashader'']
   \<and> concat (map imported_names notebook) =
       [''pd'', ''hv'', ''stocks'', ''rolling'', ''rolling_outlier_std'', ''param'', ''pn'',
        ''datashade'', ''dynspread'']
   \<and> concat (map defined_names notebook) =
       [''load_symbol'', ''StockExplorer'', ''load_symbol'', ''load_symbol_cb'',
        ''AdvancedStockExplorer'', ''view'']
   \<and> list_all (\<lambda>r. r \<in> set (concat (map imported_names notebook)))
         (concat (map decorator_roots notebook))
   \<and> list_all (\<lambda>r. r \<in> set (concat (map imported_names notebook)) \<or>
                    r \<in> set (concat (map defined_names notebook)))
         (concat (map base_roots notebook))
   \<and> list_all (\<lambda>n. n \<in> set (concat (map imported_names notebook)) \<or> n \<in> dom builtins \<or>
                    n \<in> {''load_symbol'', ''StockExplorer'', ''AdvancedStockExplorer''})
         (notebook_calls notebook)"
proof -
  have 1: "{''holoviews'', ''panel'', ''param''} \<subseteq> set (import_roots notebook)"
    by (simp add: import_roots_notebook)
  have 2: "list_all (\<lambda>r. r \<in> set (concat (map imported_names notebook)))
         (concat (map decorator_roots notebook))"
    by (simp add: imported_names_notebook decorator_roots_notebook)
  have 3: "list_all (\<lambda>r. r \<in> set (concat (map imported_names notebook)) \<or>
                    r \<in> set (concat (map defined_names notebook)))
         (concat (map base_roots notebook))"
    by (simp add: imported_names_notebook defined_names_notebook base_roots_notebook)
  have 4: "list_all (\<lambda>n. n \<in> set (concat (map imported_names notebook)) \<or> n \<in> dom builtins \<or>
                    n \<in> {''load_symbol'', ''StockExplorer'', ''AdvancedStockExplorer''})
         (notebook_calls notebook)"
    by (simp add: imported_names_notebook notebook_calls_notebook builtins_def)
  show ?thesis
    by (intro conjI import_roots_notebook imported_modules_notebook imported_names_notebook
        defined_names_notebook 1 2 3 4)
qed

section \<open>The parameter store\<close>

text \<open>
  Modelled from the spec: the Parameter Store, which ``holds current values of named,
  typed, bounded inputs''. The declarations are those of the notebook's classes, read from
  its syntax; what is missing from the sources is the code of the library \<^verbatim>\<open>param\<close> that
  stores and checks the values. A value is in the domain of an integer parameter when it
  is an integer within the bounds (both inclusive), of a selector when it is one of the
  objects, of a boolean parameter when it is a boolean. A new instance holds the defaults.
  Assigning a value outside the domain of a declared parameter is rejected with a
  \<^verbatim>\<open>ValueError\<close> and the store stays as it is; a name that is not a parameter is an ordinary
  attribute and takes any value.
\<close>

fun valid :: "pdecl \<Rightarrow> val \<Rightarrow> bool" where
  "valid (Integer d lo hi) (VInt i) = (lo \<le> i \<and> i \<le> hi)"
| "valid (ObjectSelector d xs) v = (v \<in> set xs)"
| "valid (Boolean d) (VBool b) = True"
| "valid d v = False"

fun default_value :: "pdecl \<Rightarrow> val" where
  "default_value (Integer d lo hi) = VInt d"
| "default_value (ObjectSelector d xs) = d"
| "default_value (Boolean d) = VBool d"

definition init_params :: "(string \<times> pdecl) list \<Rightarrow> (string \<rightharpoonup> val)" where
  "init_params ds = map_of (map (\<lambda>(n, d). (n, default_value d)) ds)"

definition set_param :: "(string \<times> pdecl) list \<Rightarrow> string \<Rightarrow> val \<Rightarrow> (string \<rightharpoonup> val)
    \<Rightarrow> exn option \<times> (string \<rightharpoonup> val)" where
  "set_param ds n v st =
     (case map_of ds n of
        None \<Rightarrow> (None, st(n \<mapsto> v))
      | Some d \<Rightarrow> (if valid d v then (None, st(n \<mapsto> v)) else (Some (Raised ''ValueError'' n), st)))"

text \<open>A session: assignments one after the other, a rejected one leaving no trace.\<close>

fun assign_all :: "(string \<times> pdecl) list \<Rightarrow> (string \<times> val) list \<Rightarrow> (string \<rightharpoonup> val)
    \<Rightarrow> (string \<rightharpoonup> val)" where
  "assign_all ds [] st = st"
| "assign_all ds ((n, v) # as) st = assign_all ds as (snd (set_param ds n v st))"

definition in_domain :: "(string \<rightharpoonup> val) \<Rightarrow> string \<times> pdecl \<Rightarrow> bool" where
  "in_domain st nd = (case st (fst nd) of Some v \<Rightarrow> valid (snd nd) v | None \<Rightarrow> False)"

definition params_ok :: "(string \<times> pdecl) list \<Rightarrow> (string \<rightharpoonup> val) \<Rightarrow> bool" where
  "params_ok ds st = list_all (in_domain st) ds"

lemma set_param_ok:
  assumes ok: "params_ok ds st" and dist: "distinct (map fst ds)"
  shows "params_ok ds (snd (set_param ds n v st))"
proof -
  have "in_domain (snd (set_param ds n v st)) nd" if nd: "nd \<in> set ds" for nd
  proof -
    obtain m d where [simp]: "nd = (m, d)" by (cases nd)
    from nd dist have m: "map_of ds m = Some d" by simp
    from ok nd have old: "in_domain st (m, d)" by (simp add: params_ok_def list_all_iff)
    show ?thesis
    proof (cases "m = n")
      case True
      with m old show ?thesis by (simp add: set_param_def in_domain_def)
    next
      case False
      with old show ?thesis
        by (simp add: set_param_def in_domain_def split: option.splits)
    qed
  qed
  then show ?thesis by (simp add: params_ok_def list_all_iff)
qed

lemma assign_all_ok:
  "params_ok ds st \<Longrightarrow> distinct (map fst ds) \<Longrightarrow> params_ok ds (assign_all ds as st)"
  by (induction as arbitrary: st) (auto simp: set_param_ok)

lemma set_param_rejects:
  "map_of ds n = Some d \<Longrightarrow> \<not> valid d v \<Longrightarrow> set_param ds n v st = (Some (Raised ''ValueError'' n), st)"
  by (simp add: set_param_def)

lemma decls_distinct:
  "distinct (map fst StockExplorer_decls)" "distinct (map fst AdvancedStockExplorer_decls)"
  by (simp_all add: AdvancedStockExplorer_decls_def StockExplorer_decls_def)

lemma init_ok:
  "params_ok StockExplorer_decls (init_params StockExplorer_decls)"
  "params_ok AdvancedStockExplorer_decls (init_params AdvancedStockExplorer_decls)"
  by (simp_all add: params_ok_def in_domain_def init_params_def AdvancedStockExplorer_decls_def
      StockExplorer_decls_def stock_symbols_def variables_def)

lemma valid_Integer: "valid (Integer d lo hi) v = (\<exists>i. v = VInt i \<and> lo \<le> i \<and> i \<le> hi)"
  by (cases v) simp_all

lemma valid_Boolean: "valid (Boolean d) v = (\<exists>b. v = VBool b)"
  by (cases v) simp_all

lemma reachable_domains:
  assumes "st = assign_all AdvancedStockExplorer_decls as (init_params AdvancedStockExplorer_decls)"
  shows "(\<exists>i. st ''rolling_window'' = Some (VInt i) \<and> 1 \<le> i \<and> i \<le> 365)
    \<and> (\<exists>s. st ''symbol'' = Some s \<and> s \<in> set stock_symbols)
    \<and> (\<exists>x. st ''variable'' = Some x \<and> x \<in> set variables)
    \<and> (\<exists>b. st ''datashade'' = Some (VBool b))"
proof -
  have "params_ok AdvancedStockExplorer_decls st"
    unfolding assms using init_ok(2) decls_distinct(2) by (rule assign_all_ok)
  then show ?thesis
    by (auto simp: params_ok_def in_domain_def AdvancedStockExplorer_decls_def
        StockExplorer_decls_def valid_Integer valid_Boolean split: option.splits)
qed

lemma reachable_ok:
  "params_ok StockExplorer_decls (assign_all StockExplorer_decls as (init_params StockExplorer_decls))"
  "params_ok AdvancedStockExplorer_decls
     (assign_all AdvancedStockExplorer_decls as (init_params AdvancedStockExplorer_decls))"
  using init_ok decls_distinct by (simp_all add: assign_all_ok)

lemma init_defaults:
  "init_params AdvancedStockExplorer_decls ''rolling_window'' = Some (VInt 10)"
  "init_params AdvancedStockExplorer_decls ''symbol'' = Some (VStr ''AAPL'')"
  "init_params AdvancedStockExplorer_decls ''variable'' = Some (VStr ''adj_close'')"
  "init_params AdvancedStockExplorer_decls ''datashade'' = Some (VBool False)"
  by (simp_all add: init_params_def AdvancedStockExplorer_decls_def StockExplorer_decls_def)

text \<open>
  Claim C3. Every parameter that the explorer classes declare is named, typed and
  constrained: \<^verbatim>\<open>rolling_window\<close> is an integer with bounds 1 and 365 and default 10, \<^verbatim>\<open>symbol\<close>
  is one of \<^verbatim>\<open>['AAPL', 'IBM', 'FB', 'GOOG', 'MSFT']\<close> with default \<^verbatim>\<open>'AAPL'\<close>, \<^verbatim>\<open>variable\<close> is one
  of \<^verbatim>\<open>['open', 'high', 'low', 'close', 'volume', 'adj_close']\<close> with default \<^verbatim>\<open>'adj_close'\<close>,
  and \<^verbatim>\<open>datashade\<close> (of \<^verbatim>\<open>AdvancedStockExplorer\<close>) is a boolean with default \<^verbatim>\<open>False\<close>. In the
  store modelled from the spec, a new instance holds the defaults, in every state reached
  from it by assignments each parameter's value lies in its declared domain, and an
  assignment outside the domain is rejected and leaves the store unchanged.
\<close>

theorem C3_parameters_in_domain:
  "class_decls notebook ''StockExplorer'' =
     [(''rolling_window'', Integer 10 1 365),
      (''symbol'', ObjectSelector (VStr ''AAPL'')
         [VStr ''AAPL'', VStr ''IBM'', VStr ''FB'', VStr ''GOOG'', VStr ''MSFT'']),
      (''variable'', ObjectSelector (VStr ''adj_close'')
         [VStr ''open'', VStr ''high'', VStr ''low'', VStr ''close'', VStr ''volume'',
          VStr ''adj_close''])]
   \<and> class_decls notebook ''AdvancedStockExplorer'' =
       class_decls notebook ''StockExplorer'' @ [(''datashade'', Boolean False)]
   \<and> init_params (class_decls notebook ''AdvancedStockExplorer'') ''rolling_window'' = Some (VInt 10)
   \<and> init_params (class_decls notebook ''AdvancedStockExplorer'') ''symbol'' = Some (VStr ''AAPL'')
   \<and> init_params (class_decls notebook ''AdvancedStockExplorer'') ''variable'' =
       Some (VStr ''adj_close'')
   \<and> init_params (class_decls notebook ''AdvancedStockExplorer'') ''datashade'' = Some (VBool False)
   \<and> params_ok (class_decls notebook ''StockExplorer'')
        (assign_all (class_decls notebook ''StockExplorer'') as
          (init_params (class_decls notebook ''StockExplorer'')))
   \<and> params_ok (class_decls notebook ''AdvancedStockExplorer'')
        (assign_all (class_decls notebook ''AdvancedStockExplorer'') as
          (init_params (class_decls notebook ''AdvancedStockExplorer'')))
   \<and> (st = assign_all (class_decls notebook ''AdvancedStockExplorer'') as
             (init_params (class_decls notebook ''AdvancedStockExplorer''))
      \<longrightarrow> (\<exists>i. st ''rolling_window'' = Some (VInt i) \<and> 1 \<le> i \<and> i \<le> 365)
        \<and> (\<exists>s. st ''symbol'' = Some s \<and> s \<in> set stock_symbols)
        \<and> (\<exists>x. st ''variable'' = Some x \<and> x \<in> set variables)
        \<and> (\<exists>b. st ''datashade'' = Some (VBool b)))
   \<and> (map_of (class_decls notebook ''AdvancedStockExplorer'') n = Some d \<and> \<not> valid d v
      \<longrightarrow> set_param (class_decls notebook ''AdvancedStockExplorer'') n v st' =
            (Some (Raised ''ValueError'' n), st'))"
proof -
  have 1: "StockExplorer_decls =
     [(''rolling_window'', Integer 10 1 365),
      (''symbol'', ObjectSelector (VStr ''AAPL'')
         [VStr ''AAPL'', VStr ''IBM'', VStr ''FB'', VStr ''GOOG'', VStr ''MSFT'']),
      (''variable'', ObjectSelector (VStr ''adj_close'')
         [VStr ''open'', VStr ''high'', VStr ''low'', VStr ''close'', VStr ''volume'',
          VStr ''adj_close''])]"
    by (simp add: StockExplorer_decls_def stock_symbols_def variables_def)
  have 2: "AdvancedStockExplorer_decls = StockExplorer_decls @ [(''datashade'', Boolean False)]"
    by (simp add: AdvancedStockExplorer_decls_def)
  have 3: "st = assign_all AdvancedStockExplorer_decls as (init_params AdvancedStockExplorer_decls)
      \<longrightarrow> (\<exists>i. st ''rolling_window'' = Some (VInt i) \<and> 1 \<le> i \<and> i \<le> 365)
        \<and> (\<exists>s. st ''symbol'' = Some s \<and> s \<in> set stock_symbols)
        \<and> (\<exists>x. st ''variable'' = Some x \<and> x \<in> set variables)
        \<and> (\<exists>b. st ''datashade'' = Some (VBool b))"
    by (rule impI) (rule reachable_domains)
  have 4: "map_of AdvancedStockExplorer_decls n = Some d \<and> \<not> valid d v
      \<longrightarrow> set_param AdvancedStockExplorer_decls n v st' = (Some (Raised ''ValueError'' n), st')"
    by (auto intro: set_param_rejects)
  show ?thesis
    unfolding class_decls_notebook
    by (intro conjI) (fact 1 2 3 4 init_defaults reachable_ok)+
qed

definition session0 :: "(string \<times> val) list" where
  "session0 =
     [(''rolling_window'', VInt 20), (''rolling_window'', VInt 400), (''rolling_window'', VInt 0),
      (''symbol'', VStr ''IBM''), (''symbol'', VStr ''TSLA''), (''variable'', VInt 3),
      (''datashade'', VInt 1), (''datashade'', VBool True), (''rolling_window'', VStr ''7'')]"

lemma session0_result:
  "assign_all AdvancedStockExplorer_decls session0 (init_params AdvancedStockExplorer_decls) =
     [''rolling_window'' \<mapsto> VInt 20, ''symbol'' \<mapsto> VStr ''IBM'', ''variable'' \<mapsto> VStr ''adj_close'',
      ''datashade'' \<mapsto> VBool True]"
  by (rule ext)
    (simp add: session0_def set_param_def init_params_def AdvancedStockExplorer_decls_def
      StockExplorer_decls_def stock_symbols_def variables_def)

theorem C3_witness:
  "assign_all AdvancedStockExplorer_decls session0 (init_params AdvancedStockExplorer_decls) =
     [''rolling_window'' \<mapsto> VInt 20, ''symbol'' \<mapsto> VStr ''IBM'', ''variable'' \<mapsto> VStr ''adj_close'',
      ''datashade'' \<mapsto> VBool True]
   \<and> params_ok AdvancedStockExplorer_decls
       [''rolling_window'' \<mapsto> VInt 20, ''symbol'' \<mapsto> VStr ''IBM'', ''variable'' \<mapsto> VStr ''adj_close'',
        ''datashade'' \<mapsto> VBool True]
   \<and> \<not> valid (Integer 10 1 365) (VInt 400)
   \<and> set_param AdvancedStockExplorer_decls ''rolling_window'' (VInt 400)
        [''rolling_window'' \<mapsto> VInt 20] =
      (Some (Raised ''ValueError'' ''rolling_window''), [''rolling_window'' \<mapsto> VInt 20])"
proof -
  note c3 = C3_parameters_in_domain[where as = session0 and n = "''rolling_window''"
      and d = "Integer 10 1 365" and v = "VInt 400" and st' = "[''rolling_window'' \<mapsto> VInt 20]",
      unfolded class_decls_notebook]
  have d: "map_of AdvancedStockExplorer_decls ''rolling_window'' = Some (Integer 10 1 365)"
    by (simp add: AdvancedStockExplorer_decls_def StockExplorer_decls_def)
  have nv: "\<not> valid (Integer 10 1 365) (VInt 400)" by simp
  from c3 have ok: "params_ok AdvancedStockExplorer_decls
      (assign_all AdvancedStockExplorer_decls session0 (init_params AdvancedStockExplorer_decls))"
    by blast
  from c3 d nv have rej: "set_param AdvancedStockExplorer_decls ''rolling_window'' (VInt 400)
        [''rolling_window'' \<mapsto> VInt 20] =
      (Some (Raised ''ValueError'' ''rolling_window''), [''rolling_window'' \<mapsto> VInt 20])"
    by blast
  show ?thesis
    using ok rej nv session0_result by simp
qed

section \<open>The recompute trigger\<close>

text \<open>
  Modelled from the spec: the Recompute Trigger, which ``on parameter mutation, identifies
  and re-invokes all computations depending on it'', over the Dependency Registry, which
  ``maps a derived computation to the set of parameter names it reads''. The registry is
  the one read from the notebook's decorators; what is missing from the sources is the
  code of \<^verbatim>\<open>param\<close>, Panel and HoloViews that watches the parameters and calls the
  computations. A dashboard holds the parameter store, what each computation returned
  when it was last invoked (the plot on display), and the computations that the last
  mutation invoked. A mutation that the store accepts re-invokes, on the new store,
  exactly the registered computations that declare the mutated parameter; a rejected
  mutation invokes nothing.
\<close>

record 'a dashboard =
  params :: "string \<rightharpoonup> val"
  shown :: "string \<rightharpoonup> 'a"
  invoked :: "string list"

definition dependents :: "dependency list \<Rightarrow> string \<Rightarrow> string list" where
  "dependents reg p = map computation (filter (\<lambda>d. p \<in> set (declared d)) reg)"

definition reinvoke :: "(string \<Rightarrow> (string \<rightharpoonup> val) \<Rightarrow> 'a) \<Rightarrow> (string \<rightharpoonup> val) \<Rightarrow> string list
    \<Rightarrow> (string \<rightharpoonup> 'a) \<Rightarrow> (string \<rightharpoonup> 'a)" where
  "reinvoke compute ps cs sh = fold (\<lambda>c sh. sh(c \<mapsto> compute c ps)) cs sh"

definition mutate :: "(string \<Rightarrow> (string \<rightharpoonup> val) \<Rightarrow> 'a) \<Rightarrow> dependency list \<Rightarrow> (string \<times> pdecl) list
    \<Rightarrow> string \<Rightarrow> val \<Rightarrow> 'a dashboard \<Rightarrow> 'a dashboard" where
  "mutate compute reg ds p v st =
     (case set_param ds p v (params st) of
        (Some e, ps) \<Rightarrow> st\<lparr>invoked := []\<rparr>
      | (None, ps) \<Rightarrow>
          \<lparr>params = ps,
           shown = reinvoke compute ps (dependents reg p) (shown st),
           invoked = dependents reg p\<rparr>)"

text \<open>
  The computations of the class-based dashboard are the decorated methods; the display is
  coherent when it shows, for each of them, what it returns on the current store.
\<close>

definition explorer_registry :: "dependency list" where
  "explorer_registry = filter (\<lambda>d. owner d \<noteq> None) (dependency_registry notebook)"

definition coherent :: "(string \<Rightarrow> (string \<rightharpoonup> val) \<Rightarrow> 'a) \<Rightarrow> dependency list \<Rightarrow> 'a dashboard \<Rightarrow> bool" where
  "coherent compute reg st =
     list_all (\<lambda>d. shown st (computation d) = Some (compute (computation d) (params st))) reg"

text \<open>A computation reads only what its registry entry says it reads.\<close>

definition reads_only :: "(string \<Rightarrow> (string \<rightharpoonup> val) \<Rightarrow> 'a) \<Rightarrow> dependency list \<Rightarrow> bool" where
  "reads_only compute reg =
     (\<forall>d \<in> set reg. \<forall>s1 s2. (\<forall>x \<in> set (reads d). s1 x = s2 x) \<longrightarrow>
        compute (computation d) s1 = compute (computation d) s2)"

lemma explorer_registry:
  "explorer_registry =
     [\<lparr>computation = ''load_symbol'', owner = Some ''StockExplorer'',
        declared = [''symbol'', ''variable''], reads = [''symbol'', ''variable'']\<rparr>,
      \<lparr>computation = ''view'', owner = Some ''AdvancedStockExplorer'',
        declared = [''datashade''], reads = [''datashade'']\<rparr>]"
  by (simp add: explorer_registry_def dependency_registry_notebook)

lemma dependents_explorer:
  "dependents explorer_registry ''symbol'' = [''load_symbol'']"
  "dependents explorer_registry ''variable'' = [''load_symbol'']"
  "dependents explorer_registry ''datashade'' = [''view'']"
  "dependents explorer_registry ''rolling_window'' = []"
  by (simp_all add: dependents_def explorer_registry)

lemma reinvoke_shown:
  "reinvoke compute ps cs sh c = (if c \<in> set cs then Some (compute c ps) else sh c)"
  unfolding reinvoke_def by (induction cs arbitrary: sh) auto

lemma mutate_accepted:
  assumes "set_param ds p v (params st) = (None, ps)"
  shows "params (mutate compute reg ds p v st) = ps"
    and "invoked (mutate compute reg ds p v st) = dependents reg p"
    and "shown (mutate compute reg ds p v st) c =
      (if c \<in> set (dependents reg p) then Some (compute c ps) else shown st c)"
  using assms by (simp_all add: mutate_def reinvoke_shown)

lemma set_param_accepted:
  "set_param ds p v ps = (None, ps') \<Longrightarrow> ps' = ps(p \<mapsto> v)"
  by (auto simp: set_param_def split: option.splits if_splits)

lemma set_param_rejected:
  "set_param ds p v ps = (Some e, ps') \<Longrightarrow> ps' = ps"
  by (auto simp: set_param_def split: option.splits if_splits)

lemma mutate_coherent:
  assumes ro: "reads_only compute reg"
    and cons: "list_all consistent reg"
    and coh: "coherent compute reg st"
  shows "coherent compute reg (mutate compute reg ds p v st)"
proof (cases "set_param ds p v (params st)")
  case (Pair e ps)
  show ?thesis
  proof (cases e)
    case (Some x)
    with Pair coh show ?thesis by (simp add: mutate_def coherent_def)
  next
    case None
    with Pair have acc: "set_param ds p v (params st) = (None, ps)" by simp
    then have ps: "ps = (params st)(p \<mapsto> v)" by (rule set_param_accepted)
    have "shown (mutate compute reg ds p v st) (computation d) = Some (compute (computation d) ps)"
      if d: "d \<in> set reg" for d
    proof (cases "computation d \<in> set (dependents reg p)")
      case True
      then show ?thesis by (simp add: mutate_accepted(3)[OF acc])
    next
      case False
      with d have "p \<notin> set (declared d)" by (auto simp: dependents_def)
      moreover from cons d have "set (declared d) = set (reads d)"
        by (simp add: list_all_iff consistent_def)
      ultimately have "\<forall>x \<in> set (reads d). ps x = params st x" by (auto simp: ps)
      with ro d have "compute (computation d) ps = compute (computation d) (params st)"
        unfolding reads_only_def by blast
      moreover from coh d
      have "shown st (computation d) = Some (compute (computation d) (params st))"
        by (simp add: coherent_def list_all_iff)
      ultimately show ?thesis using False by (simp add: mutate_accepted(3)[OF acc])
    qed
    then show ?thesis
      by (simp add: coherent_def list_all_iff mutate_accepted(1)[OF acc])
  qed
qed

lemma explorer_registry_consistent: "list_all consistent explorer_registry"
  by (simp add: explorer_registry consistent_def)

text \<open>
  Claim C2. Whenever a parameter of the dashboard is mutated, every computation that
  depends on that parameter, and only those, is re-invoked, so that the displayed plot is
  recomputed from the new value. In the trigger modelled from the spec, over the registry
  of the notebook's explorer classes: after an accepted assignment of \<open>v\<close> to \<open>p\<close> the store
  holds \<open>v\<close> for \<open>p\<close>; the computations invoked are exactly those of the registry that
  declare \<open>p\<close>; each of them shows what it returns on the new store and every other
  display is untouched; and, the computations reading only what they declare, a display
  that was coherent with the store is coherent with the new store. A change of \<^verbatim>\<open>symbol\<close> or
  of \<^verbatim>\<open>variable\<close> re-invokes \<^verbatim>\<open>load_symbol\<close> alone, a change of \<^verbatim>\<open>datashade\<close> re-invokes \<^verbatim>\<open>view\<close>
  alone, and no decorated computation declares \<^verbatim>\<open>rolling_window\<close>.
\<close>

theorem C2_mutation_reinvokes_dependents:
  assumes "set_param AdvancedStockExplorer_decls p v (params st) = (None, ps)"
  shows "params (mutate compute explorer_registry AdvancedStockExplorer_decls p v st) =
      (params st)(p \<mapsto> v)
    \<and> set (invoked (mutate compute explorer_registry AdvancedStockExplorer_decls p v st)) =
      {computation d |d. d \<in> set explorer_registry \<and> p \<in> set (declared d)}
    \<and> (\<forall>c. shown (mutate compute explorer_registry AdvancedStockExplorer_decls p v st) c =
          (if c \<in> set (invoked (mutate compute explorer_registry AdvancedStockExplorer_decls p v st))
           then Some (compute c ((params st)(p \<mapsto> v))) else shown st c))
    \<and> (reads_only compute explorer_registry \<and> coherent compute explorer_registry st \<longrightarrow>
        coherent compute explorer_registry
          (mutate compute explorer_registry AdvancedStockExplorer_decls p v st))
    \<and> dependents explorer_registry ''symbol'' = [''load_symbol'']
    \<and> dependents explorer_registry ''variable'' = [''load_symbol'']
    \<and> dependents explorer_registry ''datashade'' = [''view'']
    \<and> dependents explorer_registry ''rolling_window'' = []"
proof -
  note ps = set_param_accepted[OF assms]
  note acc = mutate_accepted[OF assms, of compute explorer_registry]
  have 1: "params (mutate compute explorer_registry AdvancedStockExplorer_decls p v st) =
      (params st)(p \<mapsto> v)"
    by (simp add: acc(1) ps)
  have 2: "set (invoked (mutate compute explorer_registry AdvancedStockExplorer_decls p v st)) =
      {computation d |d. d \<in> set explorer_registry \<and> p \<in> set (declared d)}"
    by (auto simp: acc(2) dependents_def)
  have 3: "\<forall>c. shown (mutate compute explorer_registry AdvancedStockExplorer_decls p v st) c =
          (if c \<in> set (invoked (mutate compute explorer_registry AdvancedStockExplorer_decls p v st))
           then Some (compute c ((params st)(p \<mapsto> v))) else shown st c)"
    by (simp add: acc(2) acc(3) ps)
  have 4: "reads_only compute explorer_registry \<and> coherent compute explorer_registry st \<longrightarrow>
        coherent compute explorer_registry
          (mutate compute explorer_registry AdvancedStockExplorer_decls p v st)"
    using mutate_coherent[OF _ explorer_registry_consistent] by blast
  show ?thesis
    by (intro conjI) (fact 1 2 3 4 dependents_explorer)+
qed

definition compute0 :: "string \<Rightarrow> (string \<rightharpoonup> val) \<Rightarrow> val option list" where
  "compute0 c ps =
     (if c = ''load_symbol'' then [ps ''symbol'', ps ''variable''] else [ps ''datashade''])"

definition dashboard0 :: "val option list dashboard" where
  "dashboard0 =
     \<lparr>params = init_params AdvancedStockExplorer_decls,
      shown = [''load_symbol'' \<mapsto> [Some (VStr ''AAPL''), Some (VStr ''adj_close'')],
               ''view'' \<mapsto> [Some (VBool False)]],
      invoked = []\<rparr>"

lemma compute0_reads_only: "reads_only compute0 explorer_registry"
  by (simp add: reads_only_def explorer_registry compute0_def)

lemma dashboard0_coherent: "coherent compute0 explorer_registry dashboard0"
  by (simp add: coherent_def explorer_registry compute0_def dashboard0_def init_defaults)

lemma dashboard0_accepts:
  "set_param AdvancedStockExplorer_decls ''symbol'' (VStr ''IBM'') (params dashboard0) =
     (None, (params dashboard0)(''symbol'' \<mapsto> VStr ''IBM''))"
  by (simp add: set_param_def AdvancedStockExplorer_decls_def StockExplorer_decls_def
      stock_symbols_def)

theorem C2_witness:
  "invoked (mutate compute0 explorer_registry AdvancedStockExplorer_decls ''symbol'' (VStr ''IBM'')
      dashboard0) = [''load_symbol'']
   \<and> shown (mutate compute0 explorer_registry AdvancedStockExplorer_decls ''symbol'' (VStr ''IBM'')
      dashboard0) ''load_symbol'' = Some [Some (VStr ''IBM''), Some (VStr ''adj_close'')]
   \<and> shown (mutate compute0 explorer_registry AdvancedStockExplorer_decls ''symbol'' (VStr ''IBM'')
      dashboard0) ''view'' = Some [Some (VBool False)]
   \<and> coherent compute0 explorer_registry
       (mutate compute0 explorer_registry AdvancedStockExplorer_decls ''symbol'' (VStr ''IBM'')
          dashboard0)
   \<and> reads_only compute0 explorer_registry
   \<and> coherent compute0 explorer_registry dashboard0"
proof -
  let ?st = "mutate compute0 explorer_registry AdvancedStockExplorer_decls ''symbol'' (VStr ''IBM'')
      dashboard0"
  note c2 = C2_mutation_reinvokes_dependents[OF dashboard0_accepts, of compute0]
  have inv: "invoked ?st = [''load_symbol'']"
    by (simp add: mutate_accepted(2)[OF dashboard0_accepts] dependents_explorer)
  from c2 have sh: "\<forall>c. shown ?st c =
      (if c \<in> set (invoked ?st)
       then Some (compute0 c ((params dashboard0)(''symbol'' \<mapsto> VStr ''IBM''))) else shown dashboard0 c)"
    by blast
  have p0: "params dashboard0 = init_params AdvancedStockExplorer_decls"
    and s0: "shown dashboard0 ''view'' = Some [Some (VBool False)]"
    by (simp_all add: dashboard0_def)
  from sh[rule_format, of "''load_symbol''"]
  have 1: "shown ?st ''load_symbol'' = Some [Some (VStr ''IBM''), Some (VStr ''adj_close'')]"
    unfolding inv by (simp add: compute0_def p0 init_defaults)
  from sh[rule_format, of "''view''"]
  have 2: "shown ?st ''view'' = Some [Some (VBool False)]"
    unfolding inv by (simp add: s0)
  from c2 compute0_reads_only dashboard0_coherent
  have 3: "coherent compute0 explorer_registry ?st" by blast
  show ?thesis
    using inv 1 2 3 compute0_reads_only dashboard0_coherent by blast
qed

end
